theory Spec2Isabelle
  imports Complex_Main
begin

section \<open>Python values\<close>

text \<open>
  The route engine lives twice in the repository: in \<^verbatim>\<open>app.py\<close> and, copied, in
  \<^verbatim>\<open>app/routes.py\<close>.  The two copies are textually identical except for three places
  (the \<^verbatim>\<open>except\<close> branch of \<^verbatim>\<open>haversine_distance\<close>, the main-road bonus of
  \<^verbatim>\<open>calculate_composite_score\<close>, and the two fallback blocks of the optimizer).  The
  embedding has one definition per source function and takes the copy as a parameter
  wherever the copies differ.

  Python floats are modelled as real numbers: rounding of the binary representation is
  not modelled, and neither are NaN and the infinities except for the one place where the
  source produces an infinity on purpose (\<^verbatim>\<open>float('inf')\<close>).
\<close>

datatype impl = App_py | Routes_py

text \<open>
  An argument as Python sees it: a float (or int), a string that \<^verbatim>\<open>float()\<close> parses to
  the given number, or anything on which \<^verbatim>\<open>float()\<close> raises (\<^verbatim>\<open>None\<close>, a list, a
  string that is not a number).
\<close>

datatype pyval = Num real | NumericText real | Other

datatype py_error = TypeError | ValueError | KeyError

text \<open>The result of a distance computation: a finite float or \<^verbatim>\<open>float('inf')\<close>.\<close>

datatype pyfloat = Fin real | PosInf

text \<open>\<^verbatim>\<open>float(x)\<close>: \<^verbatim>\<open>None\<close> stands for the raised TypeError or ValueError.\<close>

definition py_float :: "pyval \<Rightarrow> real option" where
  "py_float v = (case v of Num r \<Rightarrow> Some r | NumericText r \<Rightarrow> Some r | Other \<Rightarrow> None)"

text \<open>\<^verbatim>\<open>math.radians\<close> on a float.\<close>

definition radians :: "real \<Rightarrow> real" where
  "radians d = d * pi / 180"

text \<open>\<^verbatim>\<open>math.radians(x)\<close> on an arbitrary value: it accepts numbers only, not strings.\<close>

definition py_radians :: "pyval \<Rightarrow> py_error + real" where
  "py_radians v = (case v of Num r \<Rightarrow> Inr (radians r) | NumericText r \<Rightarrow> Inl TypeError
                   | Other \<Rightarrow> Inl TypeError)"

section \<open>DistanceCalculator and CoordinateValidator\<close>

text \<open>
  The haversine term under the square root, from the four angles in radians
  (\<^verbatim>\<open>a = sin(dlat/2)**2 + cos(lat1) * cos(lat2) * sin(dlon/2)**2\<close>).
\<close>

definition haversine_a :: "real \<Rightarrow> real \<Rightarrow> real \<Rightarrow> real \<Rightarrow> real" where
  "haversine_a lat1 lon1 lat2 lon2 =
     (let dlat = lat2 - lat1;
          dlon = lon2 - lon1
      in (sin (dlat / 2))\<^sup>2 + cos lat1 * cos lat2 * (sin (dlon / 2))\<^sup>2)"

text \<open>
  The body of \<^verbatim>\<open>haversine_distance\<close> on four floats (degrees), in kilometres:
  \<^verbatim>\<open>c = 2 * asin(sqrt(a)); return c * 6371\<close>.  \<^verbatim>\<open>math.sqrt\<close> and \<^verbatim>\<open>math.asin\<close> raise
  outside their domains; lemma \<open>haversine_a_range\<close> below shows that \<open>a\<close> never leaves
  \<open>[0, 1]\<close>, so on floats the body does not raise.
\<close>

definition haversine_km :: "real \<Rightarrow> real \<Rightarrow> real \<Rightarrow> real \<Rightarrow> real" where
  "haversine_km lat1 lon1 lat2 lon2 =
     (let a = haversine_a (radians lat1) (radians lon1) (radians lat2) (radians lon2);
          c = 2 * arcsin (sqrt a)
      in c * 6371)"

text \<open>What the \<^verbatim>\<open>except\<close> branch of \<^verbatim>\<open>haversine_distance\<close> returns in each copy.\<close>

definition haversine_except :: "impl \<Rightarrow> pyfloat" where
  "haversine_except i = (case i of App_py \<Rightarrow> PosInf | Routes_py \<Rightarrow> Fin 0)"

text \<open>
  \<^verbatim>\<open>haversine_distance\<close> of \<^verbatim>\<open>app.py\<close> (line 178) and of \<^verbatim>\<open>app/routes.py\<close> (line 2148):
  the four arguments go through \<^verbatim>\<open>float()\<close> inside a \<^verbatim>\<open>try\<close>.
\<close>

definition haversine_distance :: "impl \<Rightarrow> pyval \<Rightarrow> pyval \<Rightarrow> pyval \<Rightarrow> pyval \<Rightarrow> pyfloat" where
  "haversine_distance i lat1 lon1 lat2 lon2 =
     (case py_float lat1 of None \<Rightarrow> haversine_except i | Some a \<Rightarrow>
      (case py_float lon1 of None \<Rightarrow> haversine_except i | Some b \<Rightarrow>
       (case py_float lat2 of None \<Rightarrow> haversine_except i | Some c \<Rightarrow>
        (case py_float lon2 of None \<Rightarrow> haversine_except i | Some d \<Rightarrow>
           Fin (haversine_km a b c d)))))"

text \<open>
  \<^verbatim>\<open>haversine_distance\<close> of \<^verbatim>\<open>app/safety/guardrails.py\<close> (line 11): no \<^verbatim>\<open>float()\<close>, no
  \<^verbatim>\<open>try\<close>; \<^verbatim>\<open>map(radians, [...])\<close> raises on the first argument that is not a number.
\<close>

definition guardrails_haversine_distance ::
    "pyval \<Rightarrow> pyval \<Rightarrow> pyval \<Rightarrow> pyval \<Rightarrow> py_error + real" where
  "guardrails_haversine_distance lat1 lon1 lat2 lon2 =
     (case py_radians lat1 of Inl e \<Rightarrow> Inl e | Inr a \<Rightarrow>
      (case py_radians lon1 of Inl e \<Rightarrow> Inl e | Inr b \<Rightarrow>
       (case py_radians lat2 of Inl e \<Rightarrow> Inl e | Inr c \<Rightarrow>
        (case py_radians lon2 of Inl e \<Rightarrow> Inl e | Inr d \<Rightarrow>
           Inr (6371 * (2 * arcsin (sqrt (haversine_a a b c d))))))))"

text \<open>\<^verbatim>\<open>validate_coordinates\<close>: inside the Bangalore bounding box; \<^verbatim>\<open>except: return False\<close>.\<close>

definition validate_coordinates :: "pyval \<Rightarrow> pyval \<Rightarrow> bool" where
  "validate_coordinates lat lon =
     (case py_float lat of None \<Rightarrow> False | Some la \<Rightarrow>
      (case py_float lon of None \<Rightarrow> False | Some lo \<Rightarrow>
         12.704192 \<le> la \<and> la \<le> 13.173706 \<and> 77.269876 \<le> lo \<and> lo \<le> 77.850066))"

section \<open>Python helpers\<close>

type_synonym point = "real \<times> real"

text \<open>\<^verbatim>\<open>range(0, stop, step)\<close> for \<open>step \<ge> 1\<close>, and the slice \<^verbatim>\<open>xs[::step]\<close>.\<close>

definition py_range :: "nat \<Rightarrow> nat \<Rightarrow> nat list" where
  "py_range stop step = map (\<lambda>k. k * step) [0..<(stop + step - 1) div step]"

definition py_stride :: "nat \<Rightarrow> 'a list \<Rightarrow> 'a list" where
  "py_stride step xs = map (\<lambda>i. xs ! i) (py_range (length xs) step)"

text \<open>
  \<^verbatim>\<open>round(x)\<close> to the nearest integer, ties to the even neighbour, and \<^verbatim>\<open>round(x, 2)\<close>.
\<close>

definition py_round :: "real \<Rightarrow> int" where
  "py_round x =
     (let f = \<lfloor>x\<rfloor>; d = x - of_int f
      in if d < 1 / 2 then f else if 1 / 2 < d then f + 1 else if even f then f else f + 1)"

definition round2 :: "real \<Rightarrow> real" where
  "round2 x = of_int (py_round (x * 100)) / 100"

text \<open>\<^verbatim>\<open>np.clip(x, lo, hi)\<close>.\<close>

definition clip :: "real \<Rightarrow> real \<Rightarrow> real \<Rightarrow> real" where
  "clip x lo hi = min (max x lo) hi"

text \<open>The format \<^verbatim>\<open>f"{x:.4f}"\<close>: sign, integer digits, a point, four decimals.\<close>

definition digit_char :: "nat \<Rightarrow> char" where
  "digit_char d = char_of (48 + d)"

fun digits10 :: "nat \<Rightarrow> string" where
  "digits10 n = (if n < 10 then [digit_char n] else digits10 (n div 10) @ [digit_char (n mod 10)])"

declare digits10.simps [simp del]

definition fmt4 :: "real \<Rightarrow> string" where
  "fmt4 x =
     (let n = nat (py_round (\<bar>x\<bar> * 10000))
      in (if x < 0 then ''-'' else '''') @ digits10 (n div 10000) @ ''.'' @
         [digit_char (n div 1000 mod 10), digit_char (n div 100 mod 10),
          digit_char (n div 10 mod 10), digit_char (n mod 10)])"

section \<open>RouteFingerprint\<close>

text \<open>
  \<^verbatim>\<open>calculate_route_hash\<close>.  The digest \<^verbatim>\<open>hashlib.md5(s.encode()).hexdigest()\<close> is a
  parameter (\<open>md5\<close>).  \<^verbatim>\<open>None\<close> is returned for a route of fewer than two points.
\<close>

definition sample_indices :: "nat \<Rightarrow> nat list" where
  "sample_indices n = [0, n div 4, n div 2, 3 * n div 4, n - 1]"

definition hash_string :: "point list \<Rightarrow> string" where
  "hash_string route =
     (let sample_points = map (\<lambda>i. route ! i)
                            (filter (\<lambda>i. i < length route) (sample_indices (length route)))
      in concat (map (\<lambda>(lat, lon). fmt4 lat @ '','' @ fmt4 lon) sample_points))"

definition calculate_route_hash :: "(string \<Rightarrow> string) \<Rightarrow> point list \<Rightarrow> string option" where
  "calculate_route_hash md5 route =
     (if route = [] \<or> length route < 2 then None else Some (md5 (hash_string route)))"

section \<open>RouteValidator\<close>

text \<open>
  The validators call \<^verbatim>\<open>haversine_distance\<close> on floats only (coordinates of route points
  and of the request after \<^verbatim>\<open>float()\<close>); there it is \<open>haversine_km\<close> in both copies
  (lemma \<open>haversine_distance_Num\<close>).
\<close>

definition dist_km :: "point \<Rightarrow> point \<Rightarrow> real" where
  "dist_km p q = haversine_km (fst p) (snd p) (fst q) (snd q)"

text \<open>The loop of \<^verbatim>\<open>validate_route_connectivity\<close> over consecutive points.\<close>

fun gap_loop :: "real \<Rightarrow> point list \<Rightarrow> bool" where
  "gap_loop max_gap_km (p # q # ps) =
     (if dist_km p q > max_gap_km then False else gap_loop max_gap_km (q # ps))"
| "gap_loop max_gap_km [p] = True"
| "gap_loop max_gap_km [] = True"

definition validate_route_connectivity :: "point list \<Rightarrow> real \<Rightarrow> bool" where
  "validate_route_connectivity route_points max_gap_km =
     (if length route_points < 2 then False else gap_loop max_gap_km route_points)"

text \<open>The sum of the consecutive distances (\<^verbatim>\<open>actual_distance\<close>).\<close>

fun actual_distance :: "point list \<Rightarrow> real" where
  "actual_distance (p # q # ps) = dist_km p q + actual_distance (q # ps)"
| "actual_distance [p] = 0"
| "actual_distance [] = 0"

text \<open>
  \<^verbatim>\<open>detect_route_backtracking\<close>.  \<open>progress_samples\<close> lists, for the sampled indices
  \<open>i\<close>, the progress towards the destination between point \<open>i\<close> and point \<open>i + step\<close>;
  the loop stops at the first index with \<open>i + step \<ge> len\<close>.
\<close>

definition progress_samples :: "point list \<Rightarrow> point \<Rightarrow> nat \<Rightarrow> real list" where
  "progress_samples route_points dest step =
     map (\<lambda>i. dist_km (route_points ! i) dest - dist_km (route_points ! (i + step)) dest)
       (takeWhile (\<lambda>i. i + step < length route_points)
          (py_range (length route_points - step) step))"

definition max_deviation :: "point list \<Rightarrow> point \<Rightarrow> point \<Rightarrow> real \<Rightarrow> real" where
  "max_deviation route_points start dest direct_distance =
     foldl (\<lambda>acc p.
              let d_start = dist_km start p; d_end = dist_km p dest
              in if d_start > direct_distance * 0.7 \<and> d_end > direct_distance * 0.7
                 then max acc (min d_start d_end) else acc)
       0 (py_stride (max 1 (length route_points div 10)) route_points)"

definition detect_route_backtracking :: "point list \<Rightarrow> point \<Rightarrow> point \<Rightarrow> bool" where
  "detect_route_backtracking route_points start dest =
     (if length route_points < 5 then True
      else let direct_distance = dist_km start dest in
        if direct_distance < 0.1 then True
        else let detour_ratio = actual_distance route_points / direct_distance in
          if detour_ratio > 1.3 then False
          else let sample_size = min 20 (length route_points);
                   step = max 1 (length route_points div sample_size);
                   progress = progress_samples route_points dest step;
                   backtrack_count = length (filter (\<lambda>d. d < 0) progress);
                   stagnant_count = length (filter (\<lambda>d. \<not> d < 0 \<and> d < 0.01) progress);
                   total_segments = length (py_range (length route_points - step) step)
               in if real backtrack_count > real total_segments * 0.2 then False
                  else if real (backtrack_count + stagnant_count) > real total_segments * 0.4
                  then False
                  else if max_deviation route_points start dest direct_distance
                          > direct_distance * 0.3
                  then False
                  else True)"

section \<open>SpatialDatasets\<close>

text \<open>
  The three CSV tables are not part of the sources; they are parameters.  A crime row is a
  point (\<^verbatim>\<open>Latitude\<close>, \<^verbatim>\<open>Longitude\<close>).  The column \<^verbatim>\<open>population\<close>, which only
  \<^verbatim>\<open>check_isolated_areas\<close> reads, is optional: the fallback frame of
  \<^verbatim>\<open>app/route_optimizer.py\<close> lists the columns of the population table without it.
\<close>

record lighting_row =
  light_lat :: real
  light_lon :: real
  row_lighting_score :: real

record population_row =
  pop_lat :: real
  pop_lon :: real
  population_density :: real
  traffic_level :: real
  is_main_road :: real
  population :: "real option"

record datasets =
  crime_data :: "point list"
  lighting_data :: "lighting_row list"
  population_data :: "population_row list"

text \<open>\<^verbatim>\<open>Series.mean()\<close> of a non-empty column.\<close>

definition mean :: "real list \<Rightarrow> real" where
  "mean xs = sum_list xs / real (length xs)"

text \<open>The bounding-box filters \<^verbatim>\<open>df[(abs(df['Latitude'] - lat) < r) & (abs(df['Longitude'] - lon) < r)]\<close>.\<close>

definition nearby_crimes :: "datasets \<Rightarrow> real \<Rightarrow> real \<Rightarrow> real \<Rightarrow> point list" where
  "nearby_crimes ds lat lon radius =
     filter (\<lambda>c. \<bar>fst c - lat\<bar> < radius \<and> \<bar>snd c - lon\<bar> < radius) (crime_data ds)"

definition nearby_lighting :: "datasets \<Rightarrow> real \<Rightarrow> real \<Rightarrow> real \<Rightarrow> lighting_row list" where
  "nearby_lighting ds lat lon radius =
     filter (\<lambda>l. \<bar>light_lat l - lat\<bar> < radius \<and> \<bar>light_lon l - lon\<bar> < radius) (lighting_data ds)"

definition nearby_pop :: "datasets \<Rightarrow> real \<Rightarrow> real \<Rightarrow> real \<Rightarrow> population_row list" where
  "nearby_pop ds lat lon radius =
     filter (\<lambda>p. \<bar>pop_lat p - lat\<bar> < radius \<and> \<bar>pop_lon p - lon\<bar> < radius) (population_data ds)"

definition calculate_crime_exposure :: "datasets \<Rightarrow> real \<Rightarrow> real \<Rightarrow> real \<Rightarrow> nat" where
  "calculate_crime_exposure ds lat lon radius = length (nearby_crimes ds lat lon radius)"

definition calculate_lighting_score :: "datasets \<Rightarrow> real \<Rightarrow> real \<Rightarrow> real \<Rightarrow> real" where
  "calculate_lighting_score ds lat lon radius =
     (let nearby = nearby_lighting ds lat lon radius
      in if length nearby > 0 then mean (map row_lighting_score nearby) else 5.0)"

definition calculate_population_score ::
    "datasets \<Rightarrow> real \<Rightarrow> real \<Rightarrow> real \<Rightarrow> real \<times> real \<times> bool" where
  "calculate_population_score ds lat lon radius =
     (let nearby = nearby_pop ds lat lon radius
      in if length nearby > 0
         then (mean (map population_density nearby) / 1000,
               mean (map traffic_level nearby) / 10,
               mean (map is_main_road nearby) > 0.5)
         else (5.0, 5.0, False))"

section \<open>SafetyScorer\<close>

record preferences =
  prefer_main_roads :: bool
  prefer_well_lit :: bool
  prefer_populated :: bool
  safety_weight :: "real option"
  distance_weight :: "real option"

text \<open>The dict that \<^verbatim>\<open>calculate_route_safety_comprehensive\<close> returns.\<close>

record safety_metrics =
  safety_score :: real
  crime_density :: real
  max_crime_exposure :: real
  crime_hotspot_percentage :: real
  lighting_score :: real
  population_score :: real
  traffic_score :: real
  main_road_percentage :: real
  crime_density_score :: real

text \<open>The points the scorer looks at: \<^verbatim>\<open>route[::max(1, len(route) // 50)]\<close>.\<close>

definition sampled_route :: "point list \<Rightarrow> point list" where
  "sampled_route route = py_stride (max 1 (length route div 50)) route"

text \<open>The crime count at each sampled point (\<^verbatim>\<open>radius=0.003\<close>).\<close>

definition crime_counts :: "datasets \<Rightarrow> point list \<Rightarrow> nat list" where
  "crime_counts ds pts = map (\<lambda>p. calculate_crime_exposure ds (fst p) (snd p) 0.003) pts"

text \<open>
  The score formula, from the aggregates of the loop: the crime counts of the sampled
  points and the averages of lighting, population, traffic and main-road share.
\<close>

definition base_safety_score :: "nat list \<Rightarrow> real" where
  "base_safety_score counts =
     (let n_points = real (length counts);
          avg_crime = real (sum_list counts) / n_points;
          max_crime_at_point = foldl max 0 counts;
          crime_hotspot_pct = real (length (filter (\<lambda>c. c > 3) counts)) / n_points * 100;
          base_crime_penalty = min 40 (avg_crime powr 1.2 * 5);
          max_crime_penalty = min 40 (real max_crime_at_point powr 1.4 * 7);
          hotspot_penalty = min 30 (crime_hotspot_pct * 0.5);
          total_crime_penalty = base_crime_penalty + max_crime_penalty + hotspot_penalty
      in max 0 (100 - total_crime_penalty))"

definition total_multiplier :: "preferences \<Rightarrow> real \<Rightarrow> real \<Rightarrow> real \<Rightarrow> real \<Rightarrow> real" where
  "total_multiplier prefs avg_lighting avg_population avg_traffic main_road_pct =
     (let lighting_multiplier =
            1.0 + (avg_lighting / 10) * (if prefer_well_lit prefs then 2.5 else 0.8);
          population_multiplier =
            1.0 + (avg_population / 10) * (if prefer_populated prefs then 2.0 else 0.6);
          traffic_multiplier =
            1.0 + (avg_traffic / 10) * (if prefer_populated prefs then 1.5 else 0.4);
          main_road_multiplier =
            1.0 + (main_road_pct / 100) * (if prefer_main_roads prefs then 2.5 else 0.7)
      in (lighting_multiplier + population_multiplier + traffic_multiplier
          + main_road_multiplier) / 4)"

text \<open>
  \<^verbatim>\<open>calculate_route_safety_comprehensive\<close>.  With \<^verbatim>\<open>preferences=None\<close> the source takes the
  empty dict, where every \<^verbatim>\<open>get\<close> is falsy.  Nothing in the \<^verbatim>\<open>try\<close> block raises on a
  route of at least two points (\<open>n_points\<close> is at least 1), so the \<^verbatim>\<open>except\<close> branch
  is not a branch of the model.
\<close>

definition calculate_route_safety_comprehensive ::
    "datasets \<Rightarrow> point list \<Rightarrow> preferences \<Rightarrow> safety_metrics option" where
  "calculate_route_safety_comprehensive ds route prefs =
     (if route = [] \<or> length route < 2 then None
      else
        let pts = sampled_route route;
            counts = crime_counts ds pts;
            pop = map (\<lambda>p. calculate_population_score ds (fst p) (snd p) 0.005) pts;
            n_points = real (length pts);
            avg_crime = real (sum_list counts) / n_points;
            max_crime_at_point = foldl max 0 counts;
            avg_lighting =
              sum_list (map (\<lambda>p. calculate_lighting_score ds (fst p) (snd p) 0.005) pts) / n_points;
            avg_population = sum_list (map fst pop) / n_points;
            avg_traffic = sum_list (map (\<lambda>t. fst (snd t)) pop) / n_points;
            main_road_pct = real (length (filter (\<lambda>t. snd (snd t)) pop)) / n_points * 100;
            crime_hotspot_pct = real (length (filter (\<lambda>c. c > 3) counts)) / n_points * 100;
            final_safety_score =
              min 100 (base_safety_score counts
                       * total_multiplier prefs avg_lighting avg_population avg_traffic main_road_pct);
            crime_density_score = 100 - min 100 (avg_crime * 10)
        in Some \<lparr>safety_score = round2 final_safety_score,
                 crime_density = round2 avg_crime,
                 max_crime_exposure = real max_crime_at_point,
                 crime_hotspot_percentage = round2 crime_hotspot_pct,
                 lighting_score = round2 avg_lighting,
                 population_score = round2 avg_population,
                 traffic_score = round2 avg_traffic,
                 main_road_percentage = round2 main_road_pct,
                 crime_density_score = round2 crime_density_score\<rparr>)"

text \<open>\<^verbatim>\<open>check_route_main_road_coverage\<close> (\<^verbatim>\<open>min_coverage=0.4\<close>, \<^verbatim>\<open>radius=0.003\<close>).\<close>

definition check_route_main_road_coverage :: "datasets \<Rightarrow> point list \<Rightarrow> bool \<times> real" where
  "check_route_main_road_coverage ds route_points =
     (if length route_points < 2 then (False, 0.0)
      else
        let sample_points = min (length route_points) 20;
            step = length route_points div sample_points;
            visited = map (\<lambda>i. route_points ! i)
                        (takeWhile (\<lambda>i. i < length route_points)
                           (py_range (length route_points) (max 1 step)));
            main_road_count =
              length (filter (\<lambda>p. snd (snd (calculate_population_score ds (fst p) (snd p) 0.003)))
                        visited);
            total_sampled = min sample_points (length route_points);
            coverage = (if total_sampled > 0 then real main_road_count / real total_sampled else 0)
        in (coverage \<ge> 0.4, coverage * 100))"

section \<open>GuardrailEngine\<close>

text \<open>
  A \<^verbatim>\<open>datetime\<close>: the fields the engine reads.  \<^verbatim>\<open>datetime.fromtimestamp(t).hour\<close> depends
  on the time zone of the process; it is the parameter \<open>hour_of\<close> of
  \<open>check_time_based_safety\<close>.
\<close>

record datetime =
  hour :: nat
  weekday :: nat
  timestamp :: real

text \<open>The warning texts, with the numbers that the source formats into them.\<close>

datatype warning =
    Late_night_travel
  | Early_morning_travel
  | Extends_into_late_night
  | Crime_hotspots nat nat
  | Inadequate_lighting real
  | Isolated_areas real

text \<open>
  A step of \<^verbatim>\<open>route_data['steps']\<close>: a dict that may carry \<^verbatim>\<open>start_location\<close> and
  \<^verbatim>\<open>end_location\<close> (each a dict with \<^verbatim>\<open>lat\<close> and \<^verbatim>\<open>lng\<close>), or a \<^verbatim>\<open>[lat, lon]\<close> list of
  two floats.  On a list, \<^verbatim>\<open>'start_location' in step\<close> tests whether the string is one of
  the two floats, which it never is.
\<close>

datatype step = Step_dict "point option" "point option" | Step_pair real real

record guardrail_route =
  steps :: "step list"
  duration :: real

definition step_coords :: "step \<Rightarrow> point list" where
  "step_coords s =
     (case s of
        Step_dict start_location end_location \<Rightarrow>
          (case start_location of None \<Rightarrow> [] | Some p \<Rightarrow> [p])
          @ (case end_location of None \<Rightarrow> [] | Some p \<Rightarrow> [p])
      | Step_pair lat lon \<Rightarrow> [])"

definition extract_route_coords :: "guardrail_route \<Rightarrow> point list" where
  "extract_route_coords route_data = concat (map step_coords (steps route_data))"

text \<open>\<^verbatim>\<open>check_crime_hotspots\<close> (\<^verbatim>\<open>threshold_distance=0.5\<close>, \<^verbatim>\<open>max_crimes=20\<close>).\<close>

definition check_crime_hotspots :: "point list \<Rightarrow> point list \<Rightarrow> bool \<times> nat \<times> warning list" where
  "check_crime_hotspots route_coords crimes =
     (let counts = map (\<lambda>p. length (filter (\<lambda>c. \<bar>fst c - fst p\<bar> < 0.5 / 111
                                                 \<and> \<bar>snd c - snd p\<bar> < 0.5 / 111) crimes))
                       route_coords;
          max_crime_count = foldl (\<lambda>m c. if c > m then c else m) 0 counts;
          hotspot_locations = filter (\<lambda>c. c > 20) counts;
          is_safe = (max_crime_count \<le> 20)
      in (is_safe, max_crime_count,
          if \<not> is_safe then [Crime_hotspots (length hotspot_locations) max_crime_count] else []))"

text \<open>\<^verbatim>\<open>check_lighting_coverage\<close> (\<^verbatim>\<open>min_lights_per_segment=2\<close>).\<close>

definition check_lighting_coverage ::
    "point list \<Rightarrow> lighting_row list \<Rightarrow> bool \<times> real \<times> warning list" where
  "check_lighting_coverage route_coords lights =
     (let light_counts = map (\<lambda>p. length (filter (\<lambda>l. \<bar>light_lat l - fst p\<bar> < 0.005
                                                       \<and> \<bar>light_lon l - snd p\<bar> < 0.005) lights))
                             route_coords;
          poorly_lit_segments = length (filter (\<lambda>c. c < 2) light_counts);
          avg_lights = (if light_counts \<noteq> [] then mean (map real light_counts) else 0);
          poorly_lit_pct = (if route_coords \<noteq> []
                            then real poorly_lit_segments / real (length route_coords) * 100
                            else 0);
          is_safe = (poorly_lit_pct < 30)
      in (is_safe, avg_lights, if \<not> is_safe then [Inadequate_lighting poorly_lit_pct] else []))"

text \<open>
  \<^verbatim>\<open>check_isolated_areas\<close> (\<^verbatim>\<open>min_population=50\<close>).  \<^verbatim>\<open>nearby_pop['population']\<close> raises
  KeyError when the table has no such column.
\<close>

definition pop_score_at :: "population_row list \<Rightarrow> point \<Rightarrow> py_error + real" where
  "pop_score_at pops p =
     (let nearby = filter (\<lambda>r. \<bar>pop_lat r - fst p\<bar> < 0.005 \<and> \<bar>pop_lon r - snd p\<bar> < 0.005) pops
      in if length nearby > 0
         then (case those (map population nearby) of
                 None \<Rightarrow> Inl KeyError
               | Some vs \<Rightarrow> Inr (mean vs))
         else Inr 0)"

fun pop_scores :: "population_row list \<Rightarrow> point list \<Rightarrow> py_error + real list" where
  "pop_scores pops [] = Inr []"
| "pop_scores pops (p # ps) =
     (case pop_score_at pops p of
        Inl e \<Rightarrow> Inl e
      | Inr v \<Rightarrow> (case pop_scores pops ps of Inl e \<Rightarrow> Inl e | Inr vs \<Rightarrow> Inr (v # vs)))"

definition check_isolated_areas ::
    "point list \<Rightarrow> population_row list \<Rightarrow> py_error + (bool \<times> real \<times> warning list)" where
  "check_isolated_areas route_coords pops =
     (case pop_scores pops route_coords of
        Inl e \<Rightarrow> Inl e
      | Inr population_scores \<Rightarrow>
          let isolated_segments = length (filter (\<lambda>v. v < 50) population_scores);
              avg_population = (if population_scores \<noteq> [] then mean population_scores else 0);
              isolated_pct = (if route_coords \<noteq> []
                              then real isolated_segments / real (length route_coords) * 100
                              else 0);
              is_safe = (isolated_pct < 75)
          in Inr (is_safe, avg_population,
                  if \<not> is_safe then [Isolated_areas isolated_pct] else []))"

text \<open>\<^verbatim>\<open>check_time_based_safety\<close>: returns \<^verbatim>\<open>(is_safe, time_factor, warnings)\<close>.\<close>

definition check_time_based_safety ::
    "(real \<Rightarrow> nat) \<Rightarrow> datetime \<Rightarrow> real \<Rightarrow> bool \<times> real \<times> warning list" where
  "check_time_based_safety hour_of current_time route_duration_seconds =
     (let h = hour current_time;
          is_late_night = (23 \<le> h \<or> h < 5);
          is_early_morning = (5 \<le> h \<and> h < 7);
          time_factor = (if is_late_night then 0.5 else if is_early_morning then 0.8 else 1.0);
          is_safe = (if is_late_night then False else True);
          warnings = (if is_late_night then [Late_night_travel]
                      else if is_early_morning then [Early_morning_travel] else []);
          end_time = timestamp current_time + route_duration_seconds;
          end_hour = hour_of end_time
      in if \<not> is_late_night \<and> (23 \<le> end_hour \<or> end_hour < 5)
         then (is_safe, time_factor * 0.8, warnings @ [Extends_into_late_night])
         else (is_safe, time_factor, warnings))"

text \<open>
  \<^verbatim>\<open>apply_safety_guardrails\<close>: returns \<^verbatim>\<open>(is_valid, adjusted_score, warnings)\<close>, or the
  KeyError of the isolation check.  A table that is \<^verbatim>\<open>None\<close> is \<open>None\<close>.
\<close>

definition apply_safety_guardrails ::
    "(real \<Rightarrow> nat) \<Rightarrow> guardrail_route \<Rightarrow> real \<Rightarrow> datetime \<Rightarrow>
     point list option \<Rightarrow> lighting_row list option \<Rightarrow> population_row list option \<Rightarrow>
     py_error + (bool \<times> real \<times> warning list)" where
  "apply_safety_guardrails hour_of route_data score current_time crimes lights pops =
     (let route_coords = extract_route_coords route_data;
          route_duration = duration route_data;
          (time_safe, time_factor, time_warnings) =
             check_time_based_safety hour_of current_time route_duration;
          adjusted0 = score * time_factor;
          is_valid = (if \<not> time_safe \<and> hour current_time \<ge> 0 \<and> hour current_time < 3
                      then False else True);
          (adjusted1, warnings1) =
             (case crimes of
                Some cd \<Rightarrow>
                  if length route_coords > 0
                  then (let (crime_safe, crime_count, crime_warnings) =
                              check_crime_hotspots route_coords cd
                        in (if \<not> crime_safe then adjusted0 * 0.7 else adjusted0,
                            time_warnings @ crime_warnings))
                  else (adjusted0, time_warnings)
              | None \<Rightarrow> (adjusted0, time_warnings));
          (adjusted2, warnings2) =
             (case lights of
                Some ld \<Rightarrow>
                  if length route_coords > 0
                  then (let (lighting_safe, avg_lights, lighting_warnings) =
                              check_lighting_coverage route_coords ld
                        in (if \<not> lighting_safe
                               \<and> (hour current_time < 6 \<or> hour current_time \<ge> 20)
                            then adjusted1 * 0.8 else adjusted1,
                            warnings1 @ lighting_warnings))
                  else (adjusted1, warnings1)
              | None \<Rightarrow> (adjusted1, warnings1))
      in case pops of
           Some pd \<Rightarrow>
             if length route_coords > 0
             then (case check_isolated_areas route_coords pd of
                     Inl e \<Rightarrow> Inl e
                   | Inr (isolation_safe, avg_pop, isolation_warnings) \<Rightarrow>
                       Inr (is_valid,
                            clip (if \<not> isolation_safe then adjusted2 * 0.8 else adjusted2) 0 100,
                            warnings2 @ isolation_warnings))
             else Inr (is_valid, clip adjusted2 0 100, warnings2)
         | None \<Rightarrow> Inr (is_valid, clip adjusted2 0 100, warnings2))"

section \<open>RouteProvider\<close>

text \<open>
  A route dict as \<^verbatim>\<open>get_route_from_osrm\<close> builds it.  \<open>nav_steps\<close> is the key
  \<^verbatim>\<open>'steps'\<close>: the turn-by-turn instructions, each with its text and its distance in
  metres (the formatted \<^verbatim>\<open>distance_text\<close> is left out).
\<close>

record route_data =
  route :: "point list"
  distance_km :: real
  duration_min :: real
  waypoint :: "point option"
  nav_steps :: "(string \<times> real) list"

text \<open>
  One route of the provider's JSON answer: \<^verbatim>\<open>geometry.coordinates\<close> as \<^verbatim>\<open>[lon, lat]\<close> pairs
  (\<open>None\<close> when the key \<^verbatim>\<open>geometry\<close> is missing), \<^verbatim>\<open>distance\<close> in metres, \<^verbatim>\<open>duration\<close>
  in seconds, and the maneuver steps of its legs.
\<close>

record osrm_route =
  geometry :: "(real \<times> real) list option"
  osrm_distance :: real
  osrm_duration :: real
  maneuvers :: "(string \<times> real) list"

text \<open>
  The HTTP exchange is a parameter: \<open>osrm k start dest waypoint\<close> is what the \<open>k\<close>-th
  request of one optimization returns, \<open>None\<close> when \<^verbatim>\<open>requests.get\<close> or the JSON decoding
  raises, otherwise the \<^verbatim>\<open>code\<close> and the \<^verbatim>\<open>routes\<close> of the answer.
\<close>

type_synonym provider = "nat \<Rightarrow> point \<Rightarrow> point \<Rightarrow> point option \<Rightarrow> (string \<times> osrm_route list) option"

definition convert_osrm_route :: "point \<Rightarrow> point \<Rightarrow> point option \<Rightarrow> osrm_route \<Rightarrow> route_data list" where
  "convert_osrm_route start dest wp r =
     (case geometry r of
        None \<Rightarrow> []
      | Some coordinates \<Rightarrow>
          if coordinates = [] \<or> length coordinates < 2 then []
          else
            let rt = map (\<lambda>coord. (snd coord, fst coord)) coordinates;
                start_dist = dist_km start (hd rt);
                end_dist = dist_km dest (last rt)
            in if start_dist > 0.2 \<or> end_dist > 0.2 then []
               else [\<lparr>route = rt,
                      distance_km = osrm_distance r / 1000,
                      duration_min = osrm_duration r / 60,
                      waypoint = wp,
                      nav_steps = maneuvers r\<rparr>])"

text \<open>\<^verbatim>\<open>get_route_from_osrm\<close>; \<open>None\<close> is Python's \<^verbatim>\<open>None\<close>.\<close>

definition get_route_from_osrm ::
    "provider \<Rightarrow> nat \<Rightarrow> point \<Rightarrow> point \<Rightarrow> point option \<Rightarrow> route_data list option" where
  "get_route_from_osrm osrm k start dest wp =
     (if \<not> (validate_coordinates (Num (fst start)) (Num (snd start))
             \<and> validate_coordinates (Num (fst dest)) (Num (snd dest))) then None
      else (case osrm k start dest wp of
              None \<Rightarrow> None
            | Some (code, routes) \<Rightarrow>
                if code \<noteq> ''Ok'' then None
                else Some (concat (map (convert_osrm_route start dest wp) routes))))"

section \<open>CompositeRanker\<close>

text \<open>
  The keys that \<^verbatim>\<open>calculate_composite_score\<close> reads from the route dict with
  \<^verbatim>\<open>route.get(key, default)\<close>; \<open>None\<close> is an absent key.
\<close>

record route_keys =
  k_safety_score :: "real option"
  k_distance_km :: "real option"
  k_crime_density :: "real option"
  k_max_crime_exposure :: "real option"
  k_main_road_percentage :: "real option"
  k_lighting_score :: "real option"
  k_population_score :: "real option"

definition get_or :: "'a option \<Rightarrow> 'a \<Rightarrow> 'a" where
  "get_or v d = (case v of None \<Rightarrow> d | Some x \<Rightarrow> x)"

text \<open>
  \<^verbatim>\<open>calculate_composite_score\<close>.  The copies differ in the main-road bonus: \<^verbatim>\<open>app.py\<close>
  (line 546) adds \<open>pct / 100 * 0.35\<close> and \<open>0.15\<close> more above 70, \<^verbatim>\<open>app/routes.py\<close>
  (line 2113) adds \<open>pct / 100 * 0.15\<close> only.
\<close>

definition calculate_composite_score :: "impl \<Rightarrow> route_keys \<Rightarrow> preferences \<Rightarrow> real" where
  "calculate_composite_score i r prefs =
     (let sw = get_or (safety_weight prefs) 0.7;
          dw = get_or (distance_weight prefs) 0.3;
          score = get_or (k_safety_score r) 50;
          dkm = get_or (k_distance_km r) 10;
          crime = get_or (k_crime_density r) 5;
          max_crime = get_or (k_max_crime_exposure r) 5;
          normalized_safety = score / 100;
          normalized_distance = max 0 (1 - dkm / 30);
          crime_penalty = min 1 ((crime * 0.3 + max_crime * 0.7) / 20);
          safety_component = normalized_safety * (1 - crime_penalty * 0.5);
          bonus1 =
            (if prefer_main_roads prefs
             then let main_road_pct = get_or (k_main_road_percentage r) 0
                  in (case i of
                        App_py \<Rightarrow> main_road_pct / 100 * 0.35
                                   + (if main_road_pct > 70 then 0.15 else 0)
                      | Routes_py \<Rightarrow> main_road_pct / 100 * 0.15)
             else 0);
          bonus2 = bonus1 + (if prefer_well_lit prefs
                             then get_or (k_lighting_score r) 5 / 10 * 0.15 else 0);
          preference_bonus = bonus2 + (if prefer_populated prefs
                                       then get_or (k_population_score r) 5 / 10 * 0.15 else 0)
      in safety_component * sw + normalized_distance * dw + preference_bonus)"

section \<open>MLBlender\<close>

text \<open>
  \<^verbatim>\<open>extract_route_features\<close> builds a dict from strings to floats; it is an association
  list here.  The arguments are the values that the optimizer passes.  The two ratios
  divide by \<open>lighting_score + 1\<close> and \<open>population_score + 1\<close>: a zero divisor raises
  ZeroDivisionError (\<open>None\<close>).
\<close>

definition extract_route_features ::
    "real \<Rightarrow> real \<Rightarrow> real \<Rightarrow> safety_metrics \<Rightarrow> datetime \<Rightarrow> (string \<times> real) list option" where
  "extract_route_features dkm dmin main_pct m current_time =
     (let is_night = (hour current_time < 6 \<or> hour current_time \<ge> 22);
          crime = crime_density m;
          light = lighting_score m;
          pop = population_score m
      in if light + 1 = 0 \<or> pop + 1 = 0 then None
         else Some
         [(''distance_km'', dkm),
          (''duration_min'', dmin),
          (''main_road_percentage'', main_pct),
          (''crime_density'', crime),
          (''max_crime_exposure'', max_crime_exposure m),
          (''lighting_score'', light),
          (''population_score'', pop),
          (''traffic_score'', traffic_score m),
          (''crime_hotspot_percentage'', crime_hotspot_percentage m),
          (''hour_of_day'', real (hour current_time)),
          (''day_of_week'', real (weekday current_time)),
          (''is_weekend'', if weekday current_time \<ge> 5 then 1 else 0),
          (''is_night'', if is_night then 1 else 0),
          (''is_rush_hour'',
             if (7 \<le> hour current_time \<and> hour current_time \<le> 10)
                \<or> (17 \<le> hour current_time \<and> hour current_time \<le> 20) then 1 else 0),
          (''speed_kmh'', if dmin > 0 then dkm / (dmin / 60) else 0),
          (''crime_per_km'', if dkm > 0 then crime / dkm else 0),
          (''lighting_per_km'', light * dkm),
          (''crime_to_lighting_ratio'', crime / (light + 1)),
          (''crime_to_population_ratio'', crime / (pop + 1)),
          (''night_crime_risk'', if is_night then crime * 1.5 else 0),
          (''night_lighting_deficit'', if is_night then 10 - light else 0)])"

text \<open>
  \<^verbatim>\<open>predict_safety_score\<close> of \<^verbatim>\<open>app/ml/inference.py\<close>.  The trained model is a parameter:
  its feature names and its \<^verbatim>\<open>predict\<close>, which may raise (\<open>None\<close>).  Without a model
  the heuristic of the source applies.  Both results go through \<^verbatim>\<open>np.clip(., 0, 100)\<close>.
\<close>

type_synonym ml_model = "string list \<times> (real list \<Rightarrow> real option)"

definition predict_safety_score :: "ml_model option \<Rightarrow> (string \<times> real) list \<Rightarrow> real option" where
  "predict_safety_score model features =
     (case model of
        None \<Rightarrow>
          let crime_score = max 0 (100 - get_or (map_of features ''crime_density'') 0 * 10);
              light = get_or (map_of features ''lighting_score'') 5 * 10
          in Some (clip ((crime_score + light) / 2) 0 100)
      | Some (feature_names, predict) \<Rightarrow>
          (case predict (map (\<lambda>name. get_or (map_of features name) 0.0) feature_names) of
             None \<Rightarrow> None
           | Some prediction \<Rightarrow> Some (clip prediction 0 100)))"

section \<open>CandidateGenerator\<close>

datatype source_tag = Direct_source nat | Waypoint_source nat

text \<open>
  A route dict of \<^verbatim>\<open>all_routes\<close>: the provider's dict after \<^verbatim>\<open>route_data.update(safety)\<close>,
  with its \<^verbatim>\<open>source\<close> (the key \<^verbatim>\<open>type\<close> is the constructor of the source).
\<close>

record candidate = route_data +
  metrics :: safety_metrics
  source :: source_tag

text \<open>
  What a request runs in: the three tables, the HTTP exchange with the provider, the MD5
  digest, whether \<^verbatim>\<open>app.ml.inference\<close> could be imported and the model it loaded,
  \<^verbatim>\<open>datetime.now()\<close>, and the hour of a timestamp in the local time zone.
\<close>

record environment =
  tables :: datasets
  osrm :: provider
  md5 :: "string \<Rightarrow> string"
  ML_AVAILABLE :: bool
  model :: "ml_model option"
  now :: datetime
  hour_of :: "real \<Rightarrow> nat"

definition make_candidate :: "route_data \<Rightarrow> safety_metrics \<Rightarrow> source_tag \<Rightarrow> candidate" where
  "make_candidate rd safety src =
     \<lparr>route = route rd, distance_km = distance_km rd, duration_min = duration_min rd,
      waypoint = waypoint rd, nav_steps = nav_steps rd, metrics = safety, source = src\<rparr>"

text \<open>
  Phase 1: one step of the loop over the direct alternatives (\<open>idx\<close> from
  \<^verbatim>\<open>enumerate\<close>).  A route is appended to \<^verbatim>\<open>all_routes\<close> only after
  \<^verbatim>\<open>validate_route_connectivity(route_points, max_gap_km=0.5)\<close>,
  \<^verbatim>\<open>detect_route_backtracking\<close> and \<^verbatim>\<open>route_hash and route_hash not in route_hashes\<close>.
\<close>

definition direct_step ::
    "environment \<Rightarrow> preferences \<Rightarrow> point \<Rightarrow> point \<Rightarrow>
     candidate list \<times> string set \<Rightarrow> nat \<times> route_data \<Rightarrow> candidate list \<times> string set" where
  "direct_step env prefs start dest st ird =
     (let all_routes = fst st; route_hashes = snd st; idx = fst ird; rd = snd ird;
          route_points = route rd
      in if \<not> validate_route_connectivity route_points 0.5 then st
         else if \<not> detect_route_backtracking route_points start dest then st
         else (case calculate_route_hash (md5 env) route_points of
                 None \<Rightarrow> st
               | Some route_hash \<Rightarrow>
                   if route_hash = [] \<or> route_hash \<in> route_hashes then st
                   else (case calculate_route_safety_comprehensive (tables env) route_points prefs of
                           None \<Rightarrow> st
                         | Some safety \<Rightarrow>
                             let main_pct =
                                   snd (check_route_main_road_coverage (tables env) route_points)
                             in if prefer_main_roads prefs \<and> main_pct < 40 then st
                                else (all_routes
                                      @ [make_candidate rd safety (Direct_source (idx + 1))],
                                      insert route_hash route_hashes))))"

definition direct_phase ::
    "environment \<Rightarrow> preferences \<Rightarrow> point \<Rightarrow> point \<Rightarrow> candidate list \<times> string set" where
  "direct_phase env prefs start dest =
     (case get_route_from_osrm (osrm env) 0 start dest None of
        None \<Rightarrow> ([], {})
      | Some direct_routes \<Rightarrow>
          foldl (direct_step env prefs start dest) ([], {})
            (zip [0..<length direct_routes] direct_routes))"

text \<open>
  Phase 2.  The state of the loops: \<^verbatim>\<open>all_routes\<close>, \<^verbatim>\<open>route_hashes\<close>, \<^verbatim>\<open>waypoint_count\<close>
  and the number of requests sent so far.  Every level of the nested loops starts with
  \<^verbatim>\<open>if waypoint_count >= max_waypoints: break\<close> and the count never decreases, so a step
  that finds the count at 25 leaves the state as it is.
\<close>

record wp_state =
  all_routes :: "candidate list"
  route_hashes :: "string set"
  waypoint_count :: nat
  requests :: nat

definition max_waypoints :: nat where
  "max_waypoints = 25"

text \<open>The body of \<^verbatim>\<open>for route_data in waypoint_routes\<close>.\<close>

definition waypoint_route_step ::
    "environment \<Rightarrow> preferences \<Rightarrow> point \<Rightarrow> point \<Rightarrow> wp_state \<Rightarrow> route_data \<Rightarrow> wp_state" where
  "waypoint_route_step env prefs start dest st rd =
     (if waypoint_count st \<ge> max_waypoints then st
      else if \<not> validate_route_connectivity (route rd) 0.5 then st
      else if \<not> detect_route_backtracking (route rd) start dest then st
      else (case calculate_route_hash (md5 env) (route rd) of
              None \<Rightarrow> st
            | Some route_hash \<Rightarrow>
                if route_hash = [] \<or> route_hash \<in> route_hashes st then st
                else (case calculate_route_safety_comprehensive (tables env) (route rd) prefs of
                        None \<Rightarrow> st
                      | Some safety \<Rightarrow>
                          if prefer_main_roads prefs \<and> main_road_percentage safety < 40 then st
                          else st\<lparr>all_routes :=
                                    all_routes st
                                    @ [make_candidate rd safety
                                         (Waypoint_source (waypoint_count st))],
                                  route_hashes := insert route_hash (route_hashes st),
                                  waypoint_count := waypoint_count st + 1\<rparr>)))"

text \<open>The unit vector perpendicular to the line from start to end.\<close>

definition perpendicular :: "point \<Rightarrow> point \<Rightarrow> point" where
  "perpendicular start dest =
     (let lat_diff = fst dest - fst start;
          lon_diff = snd dest - snd start;
          perp_lat = - lon_diff;
          perp_lon = lat_diff;
          perp_magnitude = sqrt (perp_lat\<^sup>2 + perp_lon\<^sup>2)
      in if perp_magnitude > 0 then (perp_lat / perp_magnitude, perp_lon / perp_magnitude)
         else (perp_lat, perp_lon))"

text \<open>The body of the innermost loop, for one position, offset and direction.\<close>

definition waypoint_step ::
    "environment \<Rightarrow> preferences \<Rightarrow> point \<Rightarrow> point \<Rightarrow> wp_state \<Rightarrow> real \<times> real \<times> real \<Rightarrow> wp_state" where
  "waypoint_step env prefs start dest st pod =
     (let position = fst pod; offset = fst (snd pod); direction = snd (snd pod) in
      if waypoint_count st \<ge> max_waypoints then st
      else
        let base_distance = dist_km start dest;
            lat_diff = fst dest - fst start;
            lon_diff = snd dest - snd start;
            perp = perpendicular start dest;
            mid_lat = fst start + lat_diff * position;
            mid_lon = snd start + lon_diff * position;
            wp_lat = mid_lat + fst perp * offset * direction;
            wp_lon = mid_lon + snd perp * offset * direction
        in if \<not> validate_coordinates (Num wp_lat) (Num wp_lon) then st
           else
             let wp_dist = dist_km start (wp_lat, wp_lon) + dist_km (wp_lat, wp_lon) dest;
                 detour_ratio = (if base_distance > 0 then wp_dist / base_distance else 999)
             in if detour_ratio > 1.8 then st
                else
                  (case get_route_from_osrm (osrm env) (requests st) start dest
                          (Some (wp_lat, wp_lon)) of
                     None \<Rightarrow> st\<lparr>requests := requests st + 1\<rparr>
                   | Some waypoint_routes \<Rightarrow>
                       foldl (waypoint_route_step env prefs start dest)
                         (st\<lparr>requests := requests st + 1\<rparr>) waypoint_routes))"

text \<open>The positions, offsets (in degrees) and directions in the order of the three loops.\<close>

definition waypoint_grid :: "(real \<times> real \<times> real) list" where
  "waypoint_grid =
     concat (map (\<lambda>position.
       concat (map (\<lambda>offset. map (\<lambda>direction. (position, offset, direction)) [1, -1])
                 (map (\<lambda>d. d / 111.0) [0.5, 1.2, 2.5])))
       [0.25, 0.5, 0.75])"

text \<open>Phases 1 and 2: the candidate pool \<^verbatim>\<open>all_routes\<close> of one request.\<close>

definition generate_candidates ::
    "environment \<Rightarrow> preferences \<Rightarrow> point \<Rightarrow> point \<Rightarrow> wp_state" where
  "generate_candidates env prefs start dest =
     (let d = direct_phase env prefs start dest
      in foldl (waypoint_step env prefs start dest)
           \<lparr>all_routes = fst d, route_hashes = snd d, waypoint_count = 0, requests = 1\<rparr>
           waypoint_grid)"

section \<open>Scoring, guardrails and curation of the pool\<close>

text \<open>Phase 3 adds \<^verbatim>\<open>composite_score\<close> and, with the ML blend, \<^verbatim>\<open>ml_score\<close> and \<^verbatim>\<open>rule_score\<close>.\<close>

record scored = candidate +
  composite_score :: real
  ml_score :: "real option"
  rule_score :: "real option"

definition keys_of :: "candidate \<Rightarrow> route_keys" where
  "keys_of c =
     \<lparr>k_safety_score = Some (safety_score (metrics c)),
      k_distance_km = Some (distance_km c),
      k_crime_density = Some (crime_density (metrics c)),
      k_max_crime_exposure = Some (max_crime_exposure (metrics c)),
      k_main_road_percentage = Some (main_road_percentage (metrics c)),
      k_lighting_score = Some (lighting_score (metrics c)),
      k_population_score = Some (population_score (metrics c))\<rparr>"

text \<open>
  The ML prediction for a route, \<open>None\<close> when the blend does not happen: the module is
  not available, or the \<^verbatim>\<open>try\<close> block raises before \<^verbatim>\<open>route['safety_score']\<close> is assigned.
\<close>

definition ml_prediction :: "environment \<Rightarrow> candidate \<Rightarrow> real option" where
  "ml_prediction env c =
     (if ML_AVAILABLE env
      then (case extract_route_features (distance_km c) (duration_min c)
                   (main_road_percentage (metrics c)) (metrics c) (now env) of
              None \<Rightarrow> None
            | Some features \<Rightarrow> predict_safety_score (model env) features)
      else None)"

text \<open>The body of \<^verbatim>\<open>for route in all_routes\<close> in phase 3.\<close>

definition score_route :: "impl \<Rightarrow> environment \<Rightarrow> preferences \<Rightarrow> candidate \<Rightarrow> scored" where
  "score_route i env prefs c =
     (let composite = calculate_composite_score i (keys_of c) prefs;
          rule_based_score = safety_score (metrics c)
      in case ml_prediction env c of
           None \<Rightarrow>
             \<lparr>route = route c, distance_km = distance_km c, duration_min = duration_min c,
              waypoint = waypoint c, nav_steps = nav_steps c, metrics = metrics c,
              source = source c, composite_score = composite, ml_score = None,
              rule_score = None\<rparr>
         | Some ml \<Rightarrow>
             \<lparr>route = route c, distance_km = distance_km c, duration_min = duration_min c,
              waypoint = waypoint c, nav_steps = nav_steps c,
              metrics = (metrics c)\<lparr>safety_score := 0.75 * rule_based_score + 0.25 * ml\<rparr>,
              source = source c, composite_score = composite, ml_score = Some ml,
              rule_score = Some rule_based_score\<rparr>)"

text \<open>
  \<^verbatim>\<open>all_routes.sort(key=lambda x: x['composite_score'], reverse=True)\<close>: a stable sort,
  largest composite score first.
\<close>

definition rank_routes :: "scored list \<Rightarrow> scored list" where
  "rank_routes rs = sort_key (\<lambda>r. - composite_score r) rs"

text \<open>Phase 4 replaces \<^verbatim>\<open>safety_score\<close> and adds \<^verbatim>\<open>guardrail_warnings\<close>.\<close>

record validated = scored +
  guardrail_warnings :: "warning list"

text \<open>
  The dict that the optimizer hands to the guardrails:
  \<^verbatim>\<open>{'steps': route.get('route', []), 'duration': route.get('duration_min', 0) * 60}\<close>.
\<close>

definition guardrail_input :: "scored \<Rightarrow> guardrail_route" where
  "guardrail_input r =
     \<lparr>steps = map (\<lambda>p. Step_pair (fst p) (snd p)) (route r), duration = duration_min r * 60\<rparr>"

definition guardrail_verdict :: "environment \<Rightarrow> scored \<Rightarrow> py_error + (bool \<times> real \<times> warning list)" where
  "guardrail_verdict env r =
     apply_safety_guardrails (hour_of env) (guardrail_input r) (safety_score (metrics r)) (now env)
       (Some (crime_data (tables env))) (Some (lighting_data (tables env)))
       (Some (population_data (tables env)))"

text \<open>
  The loop of phase 4 over the sorted routes; it stops at 20 validated routes.  An
  exception of the guardrails leaves the loop and the request.
\<close>

fun run_guardrails :: "environment \<Rightarrow> validated list \<Rightarrow> scored list \<Rightarrow> py_error + validated list" where
  "run_guardrails env validated_routes [] = Inr validated_routes"
| "run_guardrails env validated_routes (r # rs) =
     (case guardrail_verdict env r of
        Inl e \<Rightarrow> Inl e
      | Inr (is_valid, adjusted_score, warnings) \<Rightarrow>
          if \<not> is_valid then run_guardrails env validated_routes rs
          else
            let v = \<lparr>route = route r, distance_km = distance_km r, duration_min = duration_min r,
                     waypoint = waypoint r, nav_steps = nav_steps r,
                     metrics = (metrics r)\<lparr>safety_score := adjusted_score\<rparr>,
                     source = source r, composite_score = composite_score r,
                     ml_score = ml_score r, rule_score = rule_score r,
                     guardrail_warnings = warnings\<rparr>;
                validated_routes' = validated_routes @ [v]
            in if length validated_routes' \<ge> 20 then Inr validated_routes'
               else run_guardrails env validated_routes' rs)"

section \<open>ResultCurator\<close>

datatype category = Best | Safest | Fastest | Main_roads | Balanced | Direct

datatype route_warning =
    High_crime_exposure
  | Moderate_crime_exposure
  | Caution_failed_validations
  | Caution_safety_concerns

text \<open>
  The metric keys of a returned route: the nine keys of the scorer's dict, or, when the
  scorer gave \<^verbatim>\<open>None\<close> for the direct fallback route, only \<^verbatim>\<open>safety_score\<close>,
  \<^verbatim>\<open>crime_density\<close> and \<^verbatim>\<open>max_crime_exposure\<close>.
\<close>

datatype route_metrics = All_keys safety_metrics | Basic_keys real real real

text \<open>
  A returned route.  The keys \<^verbatim>\<open>waypoint\<close> and \<^verbatim>\<open>composite_score\<close> are popped before the
  answer is sent; the texts made for display (\<^verbatim>\<open>emoji\<close>, \<^verbatim>\<open>description\<close>,
  \<^verbatim>\<open>distance_display\<close>, \<^verbatim>\<open>duration_display\<close>, \<^verbatim>\<open>safety_display\<close>, \<^verbatim>\<open>reasons\<close>) are left
  out.  \<open>route_warning\<close> is the key \<^verbatim>\<open>warning\<close>.
\<close>

record ranked_route =
  out_route :: "point list"
  out_distance_km :: real
  out_duration_min :: real
  out_nav_steps :: "(string \<times> real) list"
  out_metrics :: route_metrics
  out_source :: "source_tag option"
  out_ml_score :: "real option"
  out_rule_score :: "real option"
  out_guardrail_warnings :: "warning list option"
  rank :: nat
  is_recommended :: bool
  category :: category
  route_warning :: "route_warning option"

text \<open>The value under the key \<^verbatim>\<open>safety_score\<close> of a returned route.\<close>

definition out_safety_score :: "ranked_route \<Rightarrow> real" where
  "out_safety_score r = (case out_metrics r of All_keys m \<Rightarrow> safety_score m | Basic_keys s c x \<Rightarrow> s)"

text \<open>The category and the warning of the route at position \<open>idx\<close> of \<^verbatim>\<open>final_routes\<close>.\<close>

definition categorize :: "real \<Rightarrow> nat \<Rightarrow> validated \<Rightarrow> category" where
  "categorize min_distance idx r =
     (if idx = 0 then Best
      else if crime_density (metrics r) \<le> 1.5 \<and> max_crime_exposure (metrics r) \<le> 3 then Safest
      else if distance_km r \<le> min_distance * 1.05 then Fastest
      else if main_road_percentage (metrics r) \<ge> 70 then Main_roads
      else Balanced)"

definition crime_warning :: "safety_metrics \<Rightarrow> route_warning option" where
  "crime_warning m =
     (if max_crime_exposure m > 8 \<or> crime_density m > 5 then Some High_crime_exposure
      else if max_crime_exposure m > 5 \<or> crime_density m > 3 then Some Moderate_crime_exposure
      else None)"

definition curate_route :: "real \<Rightarrow> nat \<times> validated \<Rightarrow> ranked_route" where
  "curate_route min_distance ir =
     (let idx = fst ir; r = snd ir
      in \<lparr>out_route = route r, out_distance_km = distance_km r,
          out_duration_min = duration_min r, out_nav_steps = nav_steps r,
          out_metrics = All_keys (metrics r), out_source = Some (source r),
          out_ml_score = ml_score r, out_rule_score = rule_score r,
          out_guardrail_warnings = Some (guardrail_warnings r),
          rank = idx + 1, is_recommended = (idx = 0),
          category = categorize min_distance idx r,
          route_warning = crime_warning (metrics r)\<rparr>)"

text \<open>\<^verbatim>\<open>final_routes = validated_routes[:7]\<close> and the loop that labels them.\<close>

definition curate :: "validated list \<Rightarrow> ranked_route list" where
  "curate validated_routes =
     (let final_routes = take 7 validated_routes;
          min_distance = Min (set (map distance_km final_routes))
      in map (curate_route min_distance) (zip [0..<length final_routes] final_routes))"

text \<open>
  The two fallback blocks of \<^verbatim>\<open>app/routes.py\<close>.  The first (line 2575) asks the provider
  again for the direct route and returns its first alternative without validation; the
  second (line 2691) returns the head of the sorted pool.
\<close>

definition direct_fallback_route :: "environment \<Rightarrow> preferences \<Rightarrow> route_data \<Rightarrow> ranked_route" where
  "direct_fallback_route env prefs fallback_route =
     \<lparr>out_route = route fallback_route, out_distance_km = distance_km fallback_route,
      out_duration_min = duration_min fallback_route, out_nav_steps = nav_steps fallback_route,
      out_metrics =
        (case calculate_route_safety_comprehensive (tables env) (route fallback_route) prefs of
           Some safety \<Rightarrow> All_keys safety
         | None \<Rightarrow> Basic_keys 50.0 0.0 0.0),
      out_source = None, out_ml_score = None, out_rule_score = None,
      out_guardrail_warnings = None,
      rank = 1, is_recommended = True, category = Direct,
      route_warning = Some Caution_failed_validations\<rparr>"

definition best_available_route :: "scored \<Rightarrow> ranked_route" where
  "best_available_route fallback_route =
     \<lparr>out_route = route fallback_route, out_distance_km = distance_km fallback_route,
      out_duration_min = duration_min fallback_route, out_nav_steps = nav_steps fallback_route,
      out_metrics = All_keys (metrics fallback_route),
      out_source = Some (source fallback_route),
      out_ml_score = ml_score fallback_route, out_rule_score = rule_score fallback_route,
      out_guardrail_warnings = None,
      rank = 1, is_recommended = True, category = Direct,
      route_warning = Some Caution_safety_concerns\<rparr>"

section \<open>OptimizeRoute\<close>

text \<open>
  The JSON body of the request: a coordinate key may be missing (\<open>None\<close>); the three
  flags after \<^verbatim>\<open>bool(data.get(., False))\<close>; the weights, \<open>None\<close> when the key is missing.
\<close>

record request =
  start_lat :: "pyval option"
  start_lon :: "pyval option"
  end_lat :: "pyval option"
  end_lon :: "pyval option"
  want_main_roads :: bool
  want_well_lit :: bool
  want_populated :: bool
  weight_safety :: "pyval option"
  weight_distance :: "pyval option"

record result =
  routes :: "ranked_route list"
  total_analyzed :: nat
  is_fallback :: bool

text \<open>
  The answers of the endpoint: status 400 and 404 with their \<^verbatim>\<open>error\<close> text, status 500
  from the outer \<^verbatim>\<open>except\<close>, or the success body.
\<close>

datatype response = Bad_request string | Not_found string | Server_error | Success result

text \<open>The request after it was parsed: everything from phase 1 on.\<close>

definition optimize_valid ::
    "impl \<Rightarrow> environment \<Rightarrow> preferences \<Rightarrow> point \<Rightarrow> point \<Rightarrow> response" where
  "optimize_valid i env prefs start dest =
     (let st = generate_candidates env prefs start dest;
          pool = all_routes st
      in if length pool = 0
         then (case i of
                 App_py \<Rightarrow> Not_found ''No valid routes found''
               | Routes_py \<Rightarrow>
                   (case get_route_from_osrm (osrm env) (requests st) start dest None of
                      None \<Rightarrow> Not_found ''No valid routes found''
                    | Some [] \<Rightarrow> Not_found ''No valid routes found''
                    | Some (fallback_route # others) \<Rightarrow>
                        Success \<lparr>routes = [direct_fallback_route env prefs fallback_route],
                                 total_analyzed = 1, is_fallback = True\<rparr>))
         else
           let sorted_routes = rank_routes (map (score_route i env prefs) pool)
           in (case run_guardrails env [] sorted_routes of
                 Inl e \<Rightarrow> Server_error
               | Inr validated_routes \<Rightarrow>
                   if length validated_routes = 0
                   then (case i of
                           App_py \<Rightarrow> Not_found ''No routes passed safety validation''
                         | Routes_py \<Rightarrow>
                             (case sorted_routes of
                                [] \<Rightarrow> Not_found ''No routes passed safety validation''
                              | fallback_route # others \<Rightarrow>
                                  Success \<lparr>routes = [best_available_route fallback_route],
                                           total_analyzed = length sorted_routes,
                                           is_fallback = True\<rparr>))
                   else Success \<lparr>routes = curate validated_routes,
                                 total_analyzed = length sorted_routes,
                                 is_fallback = False\<rparr>))"

text \<open>The weight \<^verbatim>\<open>float(data.get(key, default))\<close>; \<open>None\<close> when \<^verbatim>\<open>float\<close> raises.\<close>

definition parse_weight :: "pyval option \<Rightarrow> real \<Rightarrow> real option" where
  "parse_weight v d = (case v of None \<Rightarrow> Some d | Some x \<Rightarrow> py_float x)"

text \<open>
  The head of the endpoint, up to the bounding-box test: the answer that rejects the
  request, or the preferences and the two coordinates.  A weight that does not parse
  raises outside the inner \<^verbatim>\<open>try\<close> and ends in the outer \<^verbatim>\<open>except\<close> (status 500).
\<close>

definition parse_request :: "request \<Rightarrow> response + preferences \<times> point \<times> point" where
  "parse_request req =
     (case (start_lat req, start_lon req, end_lat req, end_lon req) of
        (Some a, Some b, Some c, Some d) \<Rightarrow>
          (case (py_float a, py_float b, py_float c, py_float d) of
             (Some slat, Some slon, Some elat, Some elon) \<Rightarrow>
               (case (parse_weight (weight_safety req) 0.7, parse_weight (weight_distance req) 0.3) of
                  (Some sw, Some dw) \<Rightarrow>
                    if \<not> (validate_coordinates (Num slat) (Num slon)
                            \<and> validate_coordinates (Num elat) (Num elon))
                    then Inl (Bad_request ''Coordinates outside Bangalore'')
                    else Inr (\<lparr>prefer_main_roads = want_main_roads req,
                               prefer_well_lit = want_well_lit req,
                               prefer_populated = want_populated req,
                               safety_weight = Some sw, distance_weight = Some dw\<rparr>,
                              (slat, slon), (elat, elon))
                | _ \<Rightarrow> Inl Server_error)
           | _ \<Rightarrow> Inl (Bad_request ''Invalid coordinates''))
      | _ \<Rightarrow> Inl (Bad_request ''Missing coordinates''))"

text \<open>
  \<^verbatim>\<open>optimize_route\<close> of \<^verbatim>\<open>app.py\<close> (line 570) and \<^verbatim>\<open>api_optimize_route\<close> of
  \<^verbatim>\<open>app/routes.py\<close> (line 2409).
\<close>

definition optimize_route :: "impl \<Rightarrow> environment \<Rightarrow> request \<Rightarrow> response" where
  "optimize_route i env req =
     (case parse_request req of
        Inl answer \<Rightarrow> answer
      | Inr (prefs, start, dest) \<Rightarrow> optimize_valid i env prefs start dest)"

text \<open>The routes of an answer; an error answer carries none.\<close>

definition returned_routes :: "response \<Rightarrow> ranked_route list" where
  "returned_routes answer = (case answer of Success res \<Rightarrow> routes res | _ \<Rightarrow> [])"


section \<open>What holds of the candidate pool\<close>

text \<open>The RouteFingerprint of a route of the pool, and of a returned route.\<close>

definition fingerprint :: "environment \<Rightarrow> point list \<Rightarrow> string option" where
  "fingerprint env route_points = calculate_route_hash (md5 env) route_points"

text \<open>
  What the generator has checked of a route before it appends it to \<^verbatim>\<open>all_routes\<close>: the
  two filters of the RouteValidator, and that its metrics are the scorer's.
\<close>

definition admitted :: "environment \<Rightarrow> preferences \<Rightarrow> point \<Rightarrow> point \<Rightarrow> candidate \<Rightarrow> bool" where
  "admitted env prefs start dest c =
     (validate_route_connectivity (route c) 0.5 \<and>
      detect_route_backtracking (route c) start dest \<and>
      calculate_route_safety_comprehensive (tables env) (route c) prefs = Some (metrics c))"

text \<open>
  The invariant of the loops of phases 1 and 2: every route of the pool was admitted, no
  two routes of the pool share a fingerprint, and every fingerprint of the pool is in the
  dedup set.
\<close>

definition pool_invariant ::
    "environment \<Rightarrow> preferences \<Rightarrow> point \<Rightarrow> point \<Rightarrow> candidate list \<Rightarrow> string set \<Rightarrow> bool" where
  "pool_invariant env prefs start dest pool hashes =
     (list_all (admitted env prefs start dest) pool \<and>
      distinct (map (\<lambda>c. fingerprint env (route c)) pool) \<and>
      set (map (\<lambda>c. fingerprint env (route c)) pool) \<subseteq> Some ` hashes)"

text \<open>
  Tables whose lighting scores, population densities and traffic levels are not negative.
\<close>

definition nonneg_tables :: "datasets \<Rightarrow> bool" where
  "nonneg_tables ds =
     (list_all (\<lambda>l. 0 \<le> row_lighting_score l) (lighting_data ds) \<and>
      list_all (\<lambda>p. 0 \<le> population_density p \<and> 0 \<le> traffic_level p) (population_data ds))"

text \<open>A route of the sorted pool that the guardrails reject.\<close>

definition rejected :: "environment \<Rightarrow> scored \<Rightarrow> bool" where
  "rejected env r =
     (case guardrail_verdict env r of
        Inr (is_valid, adjusted_score, warnings) \<Rightarrow> \<not> is_valid
      | Inl e \<Rightarrow> False)"

section \<open>Example requests\<close>

text \<open>
  A request from (13, 77.5) to a point 0.001 degrees of latitude further north, with no
  preferences and the default weights; empty tables; no ML module; an MD5 digest that is
  the same for every string (any digest serves where one route is returned).
\<close>

definition example_request :: request where
  "example_request =
     \<lparr>start_lat = Some (Num 13), start_lon = Some (Num 77.5),
      end_lat = Some (Num 13.001), end_lon = Some (Num 77.5),
      want_main_roads = False, want_well_lit = False, want_populated = False,
      weight_safety = None, weight_distance = None\<rparr>"

definition example_preferences :: preferences where
  "example_preferences =
     \<lparr>prefer_main_roads = False, prefer_well_lit = False, prefer_populated = False,
      safety_weight = Some 0.7, distance_weight = Some 0.3\<rparr>"

text \<open>
  The provider answers a request without waypoint with the given route and fails on every
  request with a waypoint.
\<close>

definition direct_only :: "osrm_route \<Rightarrow> provider" where
  "direct_only r k start dest wp =
     (case wp of None \<Rightarrow> Some (''Ok'', [r]) | Some w \<Rightarrow> None)"

text \<open>The straight route of 111 m and one minute between the two points.\<close>

definition straight_route :: osrm_route where
  "straight_route =
     \<lparr>geometry = Some [(77.5, 13), (77.5, 13.001)],
      osrm_distance = 111, osrm_duration = 60, maneuvers = []\<rparr>"

text \<open>
  A route between the same two points that first runs 0.01 degrees (1.1 km) north in one
  segment: the connectivity validator rejects it.
\<close>

definition jumping_route :: osrm_route where
  "jumping_route =
     \<lparr>geometry = Some [(77.5, 13), (77.5, 13.01), (77.5, 13.001)],
      osrm_distance = 2112, osrm_duration = 300, maneuvers = []\<rparr>"

definition example_env :: "osrm_route \<Rightarrow> nat \<Rightarrow> environment" where
  "example_env r h =
     \<lparr>tables = \<lparr>crime_data = [], lighting_data = [], population_data = []\<rparr>,
      osrm = direct_only r,
      md5 = (\<lambda>s. ''d41d8cd98f00b204e9800998ecf8427e''),
      ML_AVAILABLE = False,
      model = None,
      now = \<lparr>hour = h, weekday = 0, timestamp = 0\<rparr>,
      hour_of = (\<lambda>t. h)\<rparr>"

section \<open>Properties of the distance\<close>

text \<open>From here on the theory proves; everything above is the embedding of the sources.\<close>

lemma sin_half_diff_sq:
  fixes x y :: real
  shows "(sin ((x - y) / 2))\<^sup>2 = (sin ((y - x) / 2))\<^sup>2"
proof -
  have "(x - y) / 2 = - ((y - x) / 2)" by argo
  then have "sin ((x - y) / 2) = - sin ((y - x) / 2)" by (metis sin_minus)
  then show ?thesis by simp
qed

lemma haversine_a_sym: "haversine_a p l q m = haversine_a q m p l"
  by (simp add: haversine_a_def Let_def sin_half_diff_sq [of q p] sin_half_diff_sq [of m l]
      mult.commute)

lemma haversine_a_same: "haversine_a p l p l = 0"
  by (simp add: haversine_a_def)

text \<open>
  The argument of \<^verbatim>\<open>sqrt\<close> is never negative and the argument of \<^verbatim>\<open>asin\<close> never exceeds 1:
  with \<open>C = cos (q - p)\<close>, \<open>D = cos (p + q)\<close> and \<open>s = sin\<^sup>2 (dlon / 2)\<close> the term is
  \<open>(1 - C * (1 - s) + D * s) / 2\<close>.
\<close>

lemma haversine_a_range: "0 \<le> haversine_a p l q m \<and> haversine_a p l q m \<le> 1"
proof -
  define a where "a = haversine_a p l q m"
  define s where "s = (sin ((m - l) / 2))\<^sup>2"
  define C where "C = cos (q - p)"
  define D where "D = cos (p + q)"
  have s: "0 \<le> s" "s \<le> 1"
    by (simp_all add: s_def abs_square_le_1 flip: abs_le_iff)
  have C: "-1 \<le> C" "C \<le> 1" by (simp_all add: C_def)
  have D: "-1 \<le> D" "D \<le> 1" by (simp_all add: D_def)
  have e1: "(sin ((q - p) / 2))\<^sup>2 = (1 - C) / 2"
  proof -
    have "2 * ((q - p) / 2) = q - p" by argo
    then have "C = 1 - 2 * (sin ((q - p) / 2))\<^sup>2"
      unfolding C_def using cos_double_sin [of "(q - p) / 2"] by metis
    then show ?thesis by argo
  qed
  have e2: "cos p * cos q = (C + D) / 2"
    by (simp add: C_def D_def cos_diff cos_add)
  have a: "a = (1 - C) / 2 + (C + D) / 2 * s"
    by (simp add: a_def haversine_a_def Let_def e1 e2 s_def)
  have m1: "C * (1 - s) \<le> 1 - s"
    using mult_right_mono [of C 1 "1 - s"] C s by simp
  have m2: "- (1 - s) \<le> C * (1 - s)"
    using mult_right_mono [of "-1" C "1 - s"] C s by simp
  have m3: "D * s \<le> s"
    using mult_right_mono [of D 1 s] D s by simp
  have m4: "- s \<le> D * s"
    using mult_right_mono [of "-1" D s] D s by simp
  define t1 where "t1 = C * (1 - s)"
  define t2 where "t2 = D * s"
  have eq: "a = (1 - t1 + t2) / 2"
    unfolding a t1_def t2_def by (simp add: field_simps)
  have bs: "t1 \<le> 1 - s" "- (1 - s) \<le> t1" "t2 \<le> s" "- s \<le> t2"
    using m1 m2 m3 m4 by (simp_all add: t1_def t2_def)
  have lo: "0 \<le> a" using eq bs by argo
  have hi: "a \<le> 1" using eq bs by argo
  show ?thesis using lo hi by (simp add: a_def)
qed

lemma haversine_km_same: "haversine_km la lo la lo = 0"
  by (simp add: haversine_km_def haversine_a_same Let_def)

lemma haversine_km_sym: "haversine_km a b c d = haversine_km c d a b"
  by (simp add: haversine_km_def Let_def haversine_a_sym [of "radians a"])

lemma haversine_km_nonneg: "0 \<le> haversine_km a b c d"
proof -
  have "0 \<le> arcsin (sqrt (haversine_a (radians a) (radians b) (radians c) (radians d)))"
    using haversine_a_range [of "radians a" "radians b" "radians c" "radians d"]
    by (intro arcsin_nonneg) simp
  then show ?thesis by (simp add: haversine_km_def Let_def)
qed

lemma haversine_distance_Num:
  "haversine_distance i (Num a) (Num b) (Num c) (Num d) = Fin (haversine_km a b c d)"
  by (simp add: haversine_distance_def py_float_def)

lemma haversine_distance_sym:
  "haversine_distance i a b c d = haversine_distance i c d a b"
proof -
  have "haversine_km x y z w = haversine_km z w x y" for x y z w
    by (rule haversine_km_sym)
  then show ?thesis
    by (auto simp: haversine_distance_def split: option.splits)
qed

text \<open>
  C10.  For all coordinates (pairs of floats) the distance of a point to itself is exactly
  0, and the distance is symmetric: \<open>distanceKm(a, b) = distanceKm(b, a)\<close>.  Both copies
  of \<^verbatim>\<open>haversine_distance\<close> are covered, and symmetry holds for every kind of argument.
\<close>

theorem haversine_distance_zero_and_symmetric:
  "haversine_distance i (Num lat) (Num lon) (Num lat) (Num lon) = Fin 0 \<and>
   haversine_distance i lat1 lon1 lat2 lon2 = haversine_distance i lat2 lon2 lat1 lon1"
proof
  show "haversine_distance i (Num lat) (Num lon) (Num lat) (Num lon) = Fin 0"
    by (simp add: haversine_distance_Num haversine_km_same)
  show "haversine_distance i lat1 lon1 lat2 lon2 = haversine_distance i lat2 lon2 lat1 lon1"
    by (rule haversine_distance_sym)
qed


text \<open>
  C8, as the sources have it.  When one of the four arguments does not parse as a number
  (\<^verbatim>\<open>float()\<close> raises), \<^verbatim>\<open>haversine_distance\<close> of \<^verbatim>\<open>app.py\<close> returns \<open>+\<infinity>\<close> and does not
  raise; the copy in \<^verbatim>\<open>app/routes.py\<close> returns 0 instead; and the copy in
  \<^verbatim>\<open>app/safety/guardrails.py\<close>, which has no handler, raises TypeError.
\<close>

theorem haversine_distance_on_unparsable_input:
  assumes "py_float lat1 = None \<or> py_float lon1 = None \<or> py_float lat2 = None \<or> py_float lon2 = None"
  shows "haversine_distance App_py lat1 lon1 lat2 lon2 = PosInf \<and>
         haversine_distance Routes_py lat1 lon1 lat2 lon2 = Fin 0 \<and>
         guardrails_haversine_distance lat1 lon1 lat2 lon2 = Inl TypeError"
proof -
  have other: "py_radians v = Inl TypeError" if "py_float v = None" for v
    using that by (cases v) (simp_all add: py_float_def py_radians_def)
  have num: "py_radians v = Inl TypeError \<or> (\<exists>r. py_radians v = Inr r)" for v
    by (cases v) (simp_all add: py_radians_def)
  have app: "haversine_distance i lat1 lon1 lat2 lon2 = haversine_except i" for i
    using assms by (auto simp: haversine_distance_def split: option.splits)
  have grd: "guardrails_haversine_distance lat1 lon1 lat2 lon2 = Inl TypeError"
    using assms num [of lat1] num [of lon1] num [of lat2] num [of lon2]
    by (auto simp: guardrails_haversine_distance_def dest!: other split: sum.splits)
  show ?thesis
    using app [of App_py] app [of Routes_py] grd by (simp add: haversine_except_def)
qed

theorem haversine_distance_on_unparsable_input_witness:
  "py_float Other = None \<and>
   haversine_distance App_py Other (Num 77.59) (Num 12.98) (Num 77.6) = PosInf \<and>
   haversine_distance Routes_py Other (Num 77.59) (Num 12.98) (Num 77.6) = Fin 0 \<and>
   guardrails_haversine_distance Other (Num 77.59) (Num 12.98) (Num 77.6) = Inl TypeError"
  using haversine_distance_on_unparsable_input [of Other "Num 77.59" "Num 12.98" "Num 77.6"]
  by (simp add: py_float_def)

text \<open>
  The claim as the specification words it (every implementation returns \<open>+\<infinity>\<close>) fails for the
  copy in \<^verbatim>\<open>app/routes.py\<close>: with \<^verbatim>\<open>None\<close> as first argument it answers 0.
\<close>

theorem routes_haversine_distance_not_infinite:
  "haversine_distance Routes_py Other (Num 77.59) (Num 12.98) (Num 77.6) \<noteq> PosInf"
  by (simp add: haversine_distance_def py_float_def haversine_except_def)

section \<open>Properties of the guardrails\<close>

lemma clip_range: "0 \<le> clip x 0 100 \<and> clip x 0 100 \<le> 100"
  by (simp add: clip_def)


lemma check_time_based_safety_safe:
  "fst (check_time_based_safety tz t d) = (\<not> (23 \<le> hour t \<or> hour t < 5))"
  by (simp add: check_time_based_safety_def Let_def)




lemma extract_route_coords_pairs:
  "extract_route_coords \<lparr>steps = map (\<lambda>p. Step_pair (fst p) (snd p)) ps, duration = d\<rparr> = []"
  by (induction ps) (simp_all add: extract_route_coords_def step_coords_def)

lemma guardrail_verdict_time_only:
  "extract_route_coords (guardrail_input r) = [] \<and>
   guardrail_verdict env r =
     Inr (\<not> hour (now env) < 3,
          clip (safety_score (metrics r)
                * fst (snd (check_time_based_safety (hour_of env) (now env) (duration_min r * 60))))
            0 100,
          snd (snd (check_time_based_safety (hour_of env) (now env) (duration_min r * 60))))"
proof -
  have e: "extract_route_coords (guardrail_input r) = []"
    by (simp add: guardrail_input_def extract_route_coords_pairs)
  obtain a b c where t:
    "check_time_based_safety (hour_of env) (now env) (duration_min r * 60) = (a, b, c)"
    by (cases "check_time_based_safety (hour_of env) (now env) (duration_min r * 60)") auto
  have a: "a = (\<not> (23 \<le> hour (now env) \<or> hour (now env) < 5))"
    using check_time_based_safety_safe [of "hour_of env" "now env" "duration_min r * 60"] t
    by simp
  have d: "duration (guardrail_input r) = duration_min r * 60"
    by (simp add: guardrail_input_def)
  have "guardrail_verdict env r = Inr (\<not> hour (now env) < 3, clip (safety_score (metrics r) * b) 0 100, c)"
    unfolding guardrail_verdict_def apply_safety_guardrails_def
    using e t a d by (auto simp: Let_def)
  then show ?thesis using e t by simp
qed


lemma guardrail_verdict_range:
  assumes "guardrail_verdict env r = Inr (is_valid, adjusted, ws)"
  shows "is_valid = (\<not> hour (now env) < 3) \<and> 0 \<le> adjusted \<and> adjusted \<le> 100"
  using assms guardrail_verdict_time_only [of r env] clip_range by auto

text \<open>
  C5.  In every call that the optimizer makes to the guardrails the steps are the
  \<open>[lat, lon]\<close> pairs of the polyline, so no coordinate is extracted; the crime-hotspot,
  lighting and isolation checks are skipped whatever the tables hold; and the verdict is
  the time-of-day verdict: the input score times the time factor, clipped to [0, 100],
  with the warnings of the time check only.
\<close>

theorem optimizer_guardrails_time_only:
  "extract_route_coords (guardrail_input r) = [] \<and>
   guardrail_verdict env r =
     Inr (\<not> hour (now env) < 3,
          clip (safety_score (metrics r)
                * fst (snd (check_time_based_safety (hour_of env) (now env) (duration_min r * 60))))
            0 100,
          snd (snd (check_time_based_safety (hour_of env) (now env) (duration_min r * 60))))"
  by (rule guardrail_verdict_time_only)

section \<open>Properties of the composite score\<close>

text \<open>
  C7, as the sources have it.  What enabling \<^verbatim>\<open>prefer_main_roads\<close> adds to the composite
  score of a route: in \<^verbatim>\<open>app.py\<close> it is \<open>main_road_pct / 100 * 0.35\<close>, and 0.15 more when
  \<open>main_road_pct\<close> exceeds 70; in \<^verbatim>\<open>app/routes.py\<close> it is \<open>main_road_pct / 100 * 0.15\<close>
  with no extra term.  This holds for all metrics of the route and all other preferences.
\<close>

theorem main_road_bonus:
  assumes "prefer_main_roads prefs"
    and "pct = get_or (k_main_road_percentage r) 0"
  shows "calculate_composite_score App_py r prefs
           - calculate_composite_score App_py r (prefs\<lparr>prefer_main_roads := False\<rparr>)
         = pct / 100 * 0.35 + (if pct > 70 then 0.15 else 0) \<and>
         calculate_composite_score Routes_py r prefs
           - calculate_composite_score Routes_py r (prefs\<lparr>prefer_main_roads := False\<rparr>)
         = pct / 100 * 0.15"
  using assms by (simp add: calculate_composite_score_def Let_def)

text \<open>
  A route with all its sampled points on main roads, scored with \<^verbatim>\<open>prefer_main_roads\<close>
  only: the preference is worth 0.5 in \<^verbatim>\<open>app.py\<close> and 0.15 in \<^verbatim>\<open>app/routes.py\<close>.
\<close>

theorem main_road_bonus_witness:
  "calculate_composite_score App_py
     \<lparr>k_safety_score = Some 80, k_distance_km = Some 3, k_crime_density = Some 0,
      k_max_crime_exposure = Some 0, k_main_road_percentage = Some 100,
      k_lighting_score = Some 5, k_population_score = Some 5\<rparr>
     \<lparr>prefer_main_roads = True, prefer_well_lit = False, prefer_populated = False,
      safety_weight = Some 0.7, distance_weight = Some 0.3\<rparr>
   - calculate_composite_score App_py
     \<lparr>k_safety_score = Some 80, k_distance_km = Some 3, k_crime_density = Some 0,
      k_max_crime_exposure = Some 0, k_main_road_percentage = Some 100,
      k_lighting_score = Some 5, k_population_score = Some 5\<rparr>
     \<lparr>prefer_main_roads = False, prefer_well_lit = False, prefer_populated = False,
      safety_weight = Some 0.7, distance_weight = Some 0.3\<rparr>
   = 0.5 \<and>
   calculate_composite_score Routes_py
     \<lparr>k_safety_score = Some 80, k_distance_km = Some 3, k_crime_density = Some 0,
      k_max_crime_exposure = Some 0, k_main_road_percentage = Some 100,
      k_lighting_score = Some 5, k_population_score = Some 5\<rparr>
     \<lparr>prefer_main_roads = True, prefer_well_lit = False, prefer_populated = False,
      safety_weight = Some 0.7, distance_weight = Some 0.3\<rparr>
   - calculate_composite_score Routes_py
     \<lparr>k_safety_score = Some 80, k_distance_km = Some 3, k_crime_density = Some 0,
      k_max_crime_exposure = Some 0, k_main_road_percentage = Some 100,
      k_lighting_score = Some 5, k_population_score = Some 5\<rparr>
     \<lparr>prefer_main_roads = False, prefer_well_lit = False, prefer_populated = False,
      safety_weight = Some 0.7, distance_weight = Some 0.3\<rparr>
   = 0.15"
  using main_road_bonus
    [of "\<lparr>prefer_main_roads = True, prefer_well_lit = False, prefer_populated = False,
          safety_weight = Some 0.7, distance_weight = Some 0.3\<rparr>"
        100
        "\<lparr>k_safety_score = Some 80, k_distance_km = Some 3, k_crime_density = Some 0,
          k_max_crime_exposure = Some 0, k_main_road_percentage = Some 100,
          k_lighting_score = Some 5, k_population_score = Some 5\<rparr>"]
  by (simp add: get_or_def)

text \<open>
  The claim as the specification words it (0.35 per unit share plus 0.15 above 70, in
  every implementation) fails for \<^verbatim>\<open>app/routes.py\<close>: at 100 percent main roads the
  composite score with the preference is not 0.5 above the score without it.
\<close>

theorem routes_main_road_bonus_differs:
  "calculate_composite_score Routes_py
     \<lparr>k_safety_score = Some 80, k_distance_km = Some 3, k_crime_density = Some 0,
      k_max_crime_exposure = Some 0, k_main_road_percentage = Some 100,
      k_lighting_score = Some 5, k_population_score = Some 5\<rparr>
     \<lparr>prefer_main_roads = True, prefer_well_lit = False, prefer_populated = False,
      safety_weight = Some 0.7, distance_weight = Some 0.3\<rparr>
   - calculate_composite_score Routes_py
     \<lparr>k_safety_score = Some 80, k_distance_km = Some 3, k_crime_density = Some 0,
      k_max_crime_exposure = Some 0, k_main_road_percentage = Some 100,
      k_lighting_score = Some 5, k_population_score = Some 5\<rparr>
     \<lparr>prefer_main_roads = False, prefer_well_lit = False, prefer_populated = False,
      safety_weight = Some 0.7, distance_weight = Some 0.3\<rparr>
   \<noteq> 100 / 100 * 0.35 + 0.15"
  by (simp add: calculate_composite_score_def Let_def get_or_def)

section \<open>Properties of the validator and of the candidate pool\<close>

lemma gap_loop_rejects:
  assumes "Suc i < length ps" and "dist_km (ps ! i) (ps ! Suc i) > g"
  shows "\<not> gap_loop g ps"
  using assms
proof (induction g ps arbitrary: i rule: gap_loop.induct)
  case (1 g p q ps)
  show ?case
  proof (cases "dist_km p q > g")
    case True
    then show ?thesis by simp
  next
    case False
    then obtain j where j: "i = Suc j"
      using "1.prems" by (cases i) auto
    have "Suc j < length (q # ps)" "dist_km ((q # ps) ! j) ((q # ps) ! Suc j) > g"
      using "1.prems" j by simp_all
    then have "\<not> gap_loop g (q # ps)"
      using "1.IH" [OF False] by blast
    then show ?thesis using False by simp
  qed
qed simp_all

lemma validate_route_connectivity_rejects:
  assumes "Suc i < length ps" and "dist_km (ps ! i) (ps ! Suc i) > g"
  shows "\<not> validate_route_connectivity ps g"
  using gap_loop_rejects [OF assms] by (simp add: validate_route_connectivity_def)

text \<open>Two points on one meridian: the distance is the difference of latitude on the sphere.\<close>

lemma haversine_km_meridian:
  assumes "0 \<le> radians (lat2 - lat1)" and "radians (lat2 - lat1) \<le> pi"
  shows "haversine_km lat1 lon lat2 lon = 6371 * radians (lat2 - lat1)"
proof -
  define x where "x = radians (lat2 - lat1) / 2"
  have x: "0 \<le> x" "x \<le> pi / 2" using assms by (simp_all add: x_def)
  have r: "(radians lat2 - radians lat1) / 2 = x"
    by (simp add: x_def radians_def field_simps)
  have a: "haversine_a (radians lat1) (radians lon) (radians lat2) (radians lon) = (sin x)\<^sup>2"
    by (simp add: haversine_a_def Let_def r)
  have s: "0 \<le> sin x" using x by (intro sin_ge_zero) simp_all
  have "arcsin (sqrt ((sin x)\<^sup>2)) = x"
    using s x by (simp add: arcsin_sin)
  then show ?thesis
    by (simp add: haversine_km_def Let_def a x_def)
qed

lemma direct_step_invariant:
  assumes "pool_invariant env prefs start dest (fst st) (snd st)"
  shows "pool_invariant env prefs start dest
           (fst (direct_step env prefs start dest st ird))
           (snd (direct_step env prefs start dest st ird))"
  using assms
  by (auto simp: direct_step_def pool_invariant_def admitted_def make_candidate_def
      fingerprint_def Let_def split: option.splits)

lemma direct_fold_invariant:
  assumes "pool_invariant env prefs start dest (fst st) (snd st)"
  shows "pool_invariant env prefs start dest
           (fst (foldl (direct_step env prefs start dest) st xs))
           (snd (foldl (direct_step env prefs start dest) st xs))"
  using assms
  by (induction xs arbitrary: st) (simp_all add: direct_step_invariant)

lemma direct_phase_invariant:
  "pool_invariant env prefs start dest
     (fst (direct_phase env prefs start dest)) (snd (direct_phase env prefs start dest))"
proof -
  have e: "pool_invariant env prefs start dest (fst ([], {})) (snd ([], {}))"
    by (simp add: pool_invariant_def)
  show ?thesis
    unfolding direct_phase_def
    using direct_fold_invariant [OF e] e by (simp split: option.splits)
qed

lemma waypoint_route_step_invariant:
  assumes "pool_invariant env prefs start dest (all_routes st) (route_hashes st)"
  shows "pool_invariant env prefs start dest
           (all_routes (waypoint_route_step env prefs start dest st rd))
           (route_hashes (waypoint_route_step env prefs start dest st rd))"
  using assms
  by (auto simp: waypoint_route_step_def pool_invariant_def admitted_def make_candidate_def
      fingerprint_def Let_def split: option.splits)

lemma waypoint_route_fold_invariant:
  assumes "pool_invariant env prefs start dest (all_routes st) (route_hashes st)"
  shows "pool_invariant env prefs start dest
           (all_routes (foldl (waypoint_route_step env prefs start dest) st rds))
           (route_hashes (foldl (waypoint_route_step env prefs start dest) st rds))"
  using assms
  by (induction rds arbitrary: st) (simp_all add: waypoint_route_step_invariant)

lemma waypoint_step_invariant:
  assumes "pool_invariant env prefs start dest (all_routes st) (route_hashes st)"
  shows "pool_invariant env prefs start dest
           (all_routes (waypoint_step env prefs start dest st pod))
           (route_hashes (waypoint_step env prefs start dest st pod))"
proof -
  have i: "pool_invariant env prefs start dest
             (all_routes (st\<lparr>requests := requests st + 1\<rparr>))
             (route_hashes (st\<lparr>requests := requests st + 1\<rparr>))"
    using assms by simp
  show ?thesis
    unfolding waypoint_step_def Let_def
    using assms i waypoint_route_fold_invariant [OF i]
    by (simp split: option.splits)
qed

lemma waypoint_fold_invariant:
  assumes "pool_invariant env prefs start dest (all_routes st) (route_hashes st)"
  shows "pool_invariant env prefs start dest
           (all_routes (foldl (waypoint_step env prefs start dest) st grid))
           (route_hashes (foldl (waypoint_step env prefs start dest) st grid))"
  using assms
  by (induction grid arbitrary: st) (simp_all add: waypoint_step_invariant)

lemma generate_candidates_invariant:
  "pool_invariant env prefs start dest
     (all_routes (generate_candidates env prefs start dest))
     (route_hashes (generate_candidates env prefs start dest))"
  unfolding generate_candidates_def Let_def
  by (rule waypoint_fold_invariant) (simp add: direct_phase_invariant)

lemma pool_admitted:
  assumes "c \<in> set (all_routes (generate_candidates env prefs start dest))"
  shows "admitted env prefs start dest c"
  using generate_candidates_invariant [of env prefs start dest] assms
  by (simp add: pool_invariant_def list_all_iff)

text \<open>
  C9.  A geometry with two consecutive points more than 0.5 km apart is rejected by the
  connectivity validator, and no route of the validated pool \<^verbatim>\<open>all_routes\<close> has that
  geometry, whatever the provider answers.
\<close>

theorem gap_rejected_and_never_in_pool:
  assumes "Suc i < length ps" and "dist_km (ps ! i) (ps ! Suc i) > 0.5"
  shows "\<not> validate_route_connectivity ps 0.5 \<and>
         ps \<notin> route ` set (all_routes (generate_candidates env prefs start dest))"
proof -
  have r: "\<not> validate_route_connectivity ps 0.5"
    using assms by (rule validate_route_connectivity_rejects)
  have "validate_route_connectivity (route c) 0.5"
    if "c \<in> set (all_routes (generate_candidates env prefs start dest))" for c
    using pool_admitted [OF that] by (simp add: admitted_def)
  then show ?thesis using r by auto
qed

text \<open>
  Three points on the meridian 77.59, the third one exactly 1 km north of the second
  (\<open>180 / (6371 * pi)\<close> degrees of latitude): the geometry is rejected.
\<close>

theorem gap_rejected_and_never_in_pool_witness:
  "dist_km ([(12.97, 77.59), (12.97, 77.59), (12.97 + 180 / (6371 * pi), 77.59)] ! 1)
           ([(12.97, 77.59), (12.97, 77.59), (12.97 + 180 / (6371 * pi), 77.59)] ! Suc 1) = 1 \<and>
   \<not> validate_route_connectivity
       [(12.97, 77.59), (12.97, 77.59), (12.97 + 180 / (6371 * pi), 77.59)] 0.5"
proof -
  let ?ps = "[(12.97, 77.59), (12.97, 77.59), (12.97 + 180 / (6371 * pi), 77.59)] :: point list"
  have rad: "radians (12.97 + 180 / (6371 * pi) - 12.97) = 1 / 6371"
    by (simp add: radians_def)
  have "1 / 6371 \<le> pi" using pi_ge_two by simp
  then have "haversine_km 12.97 77.59 (12.97 + 180 / (6371 * pi)) 77.59 = 1"
    using haversine_km_meridian [of "12.97 + 180 / (6371 * pi)" "12.97" "77.59"]
    unfolding rad by simp
  then have d: "dist_km (?ps ! 1) (?ps ! Suc 1) = 1"
    by (simp add: dist_km_def)
  have l: "Suc 1 < length ?ps" by simp
  have g: "dist_km (?ps ! 1) (?ps ! Suc 1) > 0.5" using d by simp
  show ?thesis
    using gap_rejected_and_never_in_pool [OF l g] d by blast
qed

section \<open>Properties of the safety score\<close>

lemma py_round_mono:
  assumes "x \<le> y"
  shows "py_round x \<le> py_round y"
proof (cases "\<lfloor>x\<rfloor> = \<lfloor>y\<rfloor>")
  case True
  then have "x - of_int \<lfloor>x\<rfloor> \<le> y - of_int \<lfloor>y\<rfloor>" using assms by simp
  then show ?thesis using True by (auto simp: py_round_def Let_def)
next
  case False
  then have "\<lfloor>x\<rfloor> < \<lfloor>y\<rfloor>" using floor_mono [OF assms] by simp
  then have "\<lfloor>x\<rfloor> + 1 \<le> \<lfloor>y\<rfloor>" by simp
  moreover have "py_round x \<le> \<lfloor>x\<rfloor> + 1" by (simp add: py_round_def Let_def)
  moreover have "\<lfloor>y\<rfloor> \<le> py_round y" by (simp add: py_round_def Let_def)
  ultimately show ?thesis by linarith
qed

lemma py_round_of_int: "py_round (of_int n) = n"
  by (simp add: py_round_def)

lemma round2_mono: "x \<le> y \<Longrightarrow> round2 x \<le> round2 y"
  using py_round_mono [of "x * 100" "y * 100"] by (simp add: round2_def divide_right_mono)




lemma sum_list_le:
  "list_all2 (\<le>) xs ys \<Longrightarrow> sum_list xs \<le> sum_list (ys :: nat list)"
  by (induction rule: list_all2_induct) simp_all

lemma foldl_max_le:
  "list_all2 (\<le>) xs ys \<Longrightarrow> a \<le> b \<Longrightarrow> foldl max a xs \<le> foldl max b (ys :: nat list)"
proof (induction arbitrary: a b rule: list_all2_induct)
  case Nil
  then show ?case by simp
next
  case (Cons x xs y ys)
  have "max a x \<le> max b y" using Cons.hyps(1) Cons.prems by (simp add: max.coboundedI1 max.coboundedI2)
  then show ?case using Cons.IH by simp
qed

lemma hotspots_le:
  "list_all2 (\<le>) xs ys \<Longrightarrow>
   length (filter (\<lambda>c. c > 3) xs) \<le> length (filter (\<lambda>c. c > 3) (ys :: nat list))"
  by (induction rule: list_all2_induct) auto

text \<open>More crimes at the sampled points never raise the base score.\<close>

lemma base_safety_score_antimono:
  assumes "list_all2 (\<le>) xs ys"
  shows "base_safety_score ys \<le> base_safety_score xs"
proof -
  have len: "length ys = length xs" using assms by (simp add: list_all2_lengthD)
  define n where "n = real (length xs)"
  have n: "0 \<le> n" by (simp add: n_def)
  have avg: "real (sum_list xs) / n \<le> real (sum_list ys) / n"
    using sum_list_le [OF assms] n by (simp add: divide_right_mono)
  have avg0: "0 \<le> real (sum_list xs) / n" using n by simp
  have p1: "(real (sum_list xs) / n) powr 1.2 * 5 \<le> (real (sum_list ys) / n) powr 1.2 * 5"
    using powr_mono2 [OF _ avg0 avg, of "1.2"] by simp
  have mx: "real (foldl max 0 xs) \<le> real (foldl max 0 ys)"
    using foldl_max_le [OF assms, of 0 0] by simp
  have p2: "real (foldl max 0 xs) powr 1.4 * 7 \<le> real (foldl max 0 ys) powr 1.4 * 7"
    using powr_mono2 [OF _ _ mx, of "1.4"] by simp
  have hs: "real (length (filter (\<lambda>c. c > 3) xs)) / n * 100 * 0.5
            \<le> real (length (filter (\<lambda>c. c > 3) ys)) / n * 100 * 0.5"
    using hotspots_le [OF assms] n by (simp add: divide_right_mono)
  define A where "A = min 40 ((real (sum_list xs) / n) powr 1.2 * 5)
        + min 40 (real (foldl max 0 xs) powr 1.4 * 7)
        + min 30 (real (length (filter (\<lambda>c. c > 3) xs)) / n * 100 * 0.5)"
  define B where "B = min 40 ((real (sum_list ys) / n) powr 1.2 * 5)
        + min 40 (real (foldl max 0 ys) powr 1.4 * 7)
        + min 30 (real (length (filter (\<lambda>c. c > 3) ys)) / n * 100 * 0.5)"
  have AB: "A \<le> B"
    unfolding A_def B_def using p1 p2 hs by (intro add_mono min.mono) simp_all
  have a: "base_safety_score xs = max 0 (100 - A)"
    unfolding base_safety_score_def Let_def A_def n_def by simp
  have b: "base_safety_score ys = max 0 (100 - B)"
    unfolding base_safety_score_def Let_def B_def n_def len by simp
  show ?thesis unfolding a b using AB by (auto simp: max_def)
qed


lemma mean_nonneg: "list_all (\<lambda>x. 0 \<le> x) xs \<Longrightarrow> 0 \<le> mean xs"
  by (simp add: mean_def list_all_iff sum_list_nonneg)

lemma calculate_lighting_score_nonneg:
  assumes "nonneg_tables ds"
  shows "0 \<le> calculate_lighting_score ds lat lon radius"
proof -
  have "list_all (\<lambda>x. 0 \<le> x) (map row_lighting_score (nearby_lighting ds lat lon radius))"
    using assms by (auto simp: nonneg_tables_def nearby_lighting_def list_all_iff)
  then show ?thesis
    by (simp add: calculate_lighting_score_def Let_def mean_nonneg)
qed

lemma calculate_population_score_nonneg:
  assumes "nonneg_tables ds"
  shows "0 \<le> fst (calculate_population_score ds lat lon radius) \<and>
         0 \<le> fst (snd (calculate_population_score ds lat lon radius))"
proof -
  have "list_all (\<lambda>x. 0 \<le> x) (map population_density (nearby_pop ds lat lon radius))"
    "list_all (\<lambda>x. 0 \<le> x) (map traffic_level (nearby_pop ds lat lon radius))"
    using assms by (auto simp: nonneg_tables_def nearby_pop_def list_all_iff)
  then show ?thesis
    by (simp add: calculate_population_score_def Let_def mean_nonneg)
qed

lemma total_multiplier_nonneg:
  assumes "0 \<le> l" "0 \<le> p" "0 \<le> t" "0 \<le> m"
  shows "0 \<le> total_multiplier prefs l p t m"
  using assms by (simp add: total_multiplier_def Let_def)

text \<open>The multiplier that the scorer applies to a route, as a function of the tables.\<close>

lemma route_multiplier_nonneg:
  assumes "nonneg_tables ds"
  shows "0 \<le> total_multiplier prefs
           (sum_list (map (\<lambda>p. calculate_lighting_score ds (fst p) (snd p) 0.005) pts) / real (length pts))
           (sum_list (map fst (map (\<lambda>p. calculate_population_score ds (fst p) (snd p) 0.005) pts))
              / real (length pts))
           (sum_list (map (\<lambda>t. fst (snd t))
                        (map (\<lambda>p. calculate_population_score ds (fst p) (snd p) 0.005) pts))
              / real (length pts))
           (real (length (filter (\<lambda>t. snd (snd t))
                            (map (\<lambda>p. calculate_population_score ds (fst p) (snd p) 0.005) pts)))
              / real (length pts) * 100)"
proof (rule total_multiplier_nonneg)
  show "0 \<le> sum_list (map (\<lambda>p. calculate_lighting_score ds (fst p) (snd p) 0.005) pts)
              / real (length pts)"
    using calculate_lighting_score_nonneg [OF assms]
    by (intro divide_nonneg_nonneg sum_list_nonneg) auto
  show "0 \<le> sum_list (map fst (map (\<lambda>p. calculate_population_score ds (fst p) (snd p) 0.005) pts))
              / real (length pts)"
    using calculate_population_score_nonneg [OF assms]
    by (intro divide_nonneg_nonneg sum_list_nonneg) auto
  show "0 \<le> sum_list (map (\<lambda>t. fst (snd t))
                        (map (\<lambda>p. calculate_population_score ds (fst p) (snd p) 0.005) pts))
              / real (length pts)"
    using calculate_population_score_nonneg [OF assms]
    by (intro divide_nonneg_nonneg sum_list_nonneg) auto
  show "0 \<le> real (length (filter (\<lambda>t. snd (snd t))
                            (map (\<lambda>p. calculate_population_score ds (fst p) (snd p) 0.005) pts)))
              / real (length pts) * 100"
    by simp
qed


text \<open>
  C6, as the code has it.  Holding the route, the preferences and the lighting and
  population tables fixed (with no negative value in them), raising the crime counts at
  the sampled points of the route never raises the safety score.  The decrease is not
  strict: the penalties are capped and the score is cut at 100 and at 0.
\<close>

theorem safety_score_antimonotone_in_crime:
  assumes "lighting_data ds' = lighting_data ds"
    and "population_data ds' = population_data ds"
    and "nonneg_tables ds"
    and "list_all2 (\<le>) (crime_counts ds (sampled_route rt)) (crime_counts ds' (sampled_route rt))"
    and "calculate_route_safety_comprehensive ds rt prefs = Some m"
    and "calculate_route_safety_comprehensive ds' rt prefs = Some m'"
  shows "safety_score m' \<le> safety_score m"
proof -
  define pts where "pts = sampled_route rt"
  define mult where "mult = total_multiplier prefs
           (sum_list (map (\<lambda>p. calculate_lighting_score ds (fst p) (snd p) 0.005) pts) / real (length pts))
           (sum_list (map fst (map (\<lambda>p. calculate_population_score ds (fst p) (snd p) 0.005) pts))
              / real (length pts))
           (sum_list (map (\<lambda>t. fst (snd t))
                        (map (\<lambda>p. calculate_population_score ds (fst p) (snd p) 0.005) pts))
              / real (length pts))
           (real (length (filter (\<lambda>t. snd (snd t))
                            (map (\<lambda>p. calculate_population_score ds (fst p) (snd p) 0.005) pts)))
              / real (length pts) * 100)"
  have mult: "0 \<le> mult"
    unfolding mult_def by (rule route_multiplier_nonneg [OF assms(3)])
  have l: "calculate_lighting_score ds' = calculate_lighting_score ds"
    using assms(1) by (intro ext) (simp add: calculate_lighting_score_def nearby_lighting_def)
  have p: "calculate_population_score ds' = calculate_population_score ds"
    using assms(2) by (intro ext) (simp add: calculate_population_score_def nearby_pop_def)
  have s: "safety_score m = round2 (min 100 (base_safety_score (crime_counts ds pts) * mult))"
    using assms(5)
    by (auto simp: calculate_route_safety_comprehensive_def Let_def pts_def mult_def
        split: if_splits)
  have s': "safety_score m' = round2 (min 100 (base_safety_score (crime_counts ds' pts) * mult))"
    using assms(6)
    by (auto simp: calculate_route_safety_comprehensive_def Let_def pts_def mult_def l p
        split: if_splits)
  have "base_safety_score (crime_counts ds' pts) \<le> base_safety_score (crime_counts ds pts)"
    using assms(4) unfolding pts_def by (rule base_safety_score_antimono)
  then have "base_safety_score (crime_counts ds' pts) * mult
             \<le> base_safety_score (crime_counts ds pts) * mult"
    using mult by (rule mult_right_mono)
  then have "min 100 (base_safety_score (crime_counts ds' pts) * mult)
             \<le> min 100 (base_safety_score (crime_counts ds pts) * mult)"
    by simp
  then show ?thesis unfolding s s' by (rule round2_mono)
qed

lemma sampled_route_two: "sampled_route [p, q] = [p, q]"
  by (simp add: sampled_route_def py_stride_def py_range_def upt_rec)

lemma round2_of_int: "round2 (of_int n) = of_int n"
  using py_round_of_int [of "n * 100"] by (simp add: round2_def)

text \<open>
  The scorer on a route of two points when the tables are empty: no crime, the default
  5.0 for lighting, population and traffic, no main road, and the score cut at 100.
\<close>

lemma scorer_two_points_quiet:
  "calculate_route_safety_comprehensive
     \<lparr>crime_data = [], lighting_data = [], population_data = []\<rparr> [p, q]
     \<lparr>prefer_main_roads = False, prefer_well_lit = False, prefer_populated = False,
      safety_weight = sw, distance_weight = dw\<rparr>
   = Some \<lparr>safety_score = 100, crime_density = 0, max_crime_exposure = 0,
           crime_hotspot_percentage = 0, lighting_score = 5, population_score = 5,
           traffic_score = 5, main_road_percentage = 0, crime_density_score = 100\<rparr>"
proof -
  have r: "round2 100 = 100" "round2 5 = 5" "round2 0 = 0"
    using round2_of_int [of 100] round2_of_int [of 5] round2_of_int [of 0] by simp_all
  show ?thesis
    by (simp add: calculate_route_safety_comprehensive_def Let_def sampled_route_two
        crime_counts_def calculate_crime_exposure_def nearby_crimes_def
        calculate_lighting_score_def nearby_lighting_def calculate_population_score_def
        nearby_pop_def base_safety_score_def total_multiplier_def r)
qed

lemma scorer_two_points_one_crime:
  "calculate_route_safety_comprehensive
     \<lparr>crime_data = [p], lighting_data = [], population_data = []\<rparr> [p, p]
     \<lparr>prefer_main_roads = False, prefer_well_lit = False, prefer_populated = False,
      safety_weight = sw, distance_weight = dw\<rparr>
   = Some \<lparr>safety_score = 100, crime_density = 1, max_crime_exposure = 1,
           crime_hotspot_percentage = 0, lighting_score = 5, population_score = 5,
           traffic_score = 5, main_road_percentage = 0, crime_density_score = 90\<rparr>"
proof -
  have r: "round2 100 = 100" "round2 5 = 5" "round2 0 = 0" "round2 1 = 1" "round2 90 = 90"
    using round2_of_int [of 100] round2_of_int [of 5] round2_of_int [of 0]
      round2_of_int [of 1] round2_of_int [of 90] by simp_all
  show ?thesis
    by (simp add: calculate_route_safety_comprehensive_def Let_def sampled_route_two
        crime_counts_def calculate_crime_exposure_def nearby_crimes_def
        calculate_lighting_score_def nearby_lighting_def calculate_population_score_def
        nearby_pop_def base_safety_score_def total_multiplier_def r)
qed

text \<open>
  A route of two points at (13, 77.5), scored without preferences, first with empty
  tables and then with one crime recorded at that point: the crime count at both sampled
  points rises from 0 to 1 and the score does not rise.
\<close>

theorem safety_score_antimonotone_in_crime_witness:
  "nonneg_tables \<lparr>crime_data = [], lighting_data = [], population_data = []\<rparr> \<and>
   list_all2 (\<le>)
     (crime_counts \<lparr>crime_data = [], lighting_data = [], population_data = []\<rparr>
        (sampled_route [(13, 77.5), (13, 77.5)]))
     (crime_counts \<lparr>crime_data = [(13, 77.5)], lighting_data = [], population_data = []\<rparr>
        (sampled_route [(13, 77.5), (13, 77.5)])) \<and>
   safety_score \<lparr>safety_score = 100, crime_density = 1, max_crime_exposure = 1,
           crime_hotspot_percentage = 0, lighting_score = 5, population_score = 5,
           traffic_score = 5, main_road_percentage = 0, crime_density_score = 90\<rparr>
   \<le> safety_score \<lparr>safety_score = 100, crime_density = 0, max_crime_exposure = 0,
           crime_hotspot_percentage = 0, lighting_score = 5, population_score = 5,
           traffic_score = 5, main_road_percentage = 0, crime_density_score = 100\<rparr>"
proof -
  let ?ds = "\<lparr>crime_data = [], lighting_data = [], population_data = []\<rparr>"
  let ?ds' = "\<lparr>crime_data = [(13, 77.5)], lighting_data = [], population_data = []\<rparr>"
  let ?rt = "[(13, 77.5), (13, 77.5)] :: point list"
  let ?prefs = "\<lparr>prefer_main_roads = False, prefer_well_lit = False, prefer_populated = False,
      safety_weight = Some 0.7, distance_weight = Some 0.3\<rparr>"
  have n: "nonneg_tables ?ds" by (simp add: nonneg_tables_def)
  have c: "list_all2 (\<le>) (crime_counts ?ds (sampled_route ?rt)) (crime_counts ?ds' (sampled_route ?rt))"
    by (simp add: sampled_route_two crime_counts_def calculate_crime_exposure_def
        nearby_crimes_def)
  have l: "lighting_data ?ds' = lighting_data ?ds" "population_data ?ds' = population_data ?ds"
    by simp_all
  note safety_score_antimonotone_in_crime
    [OF l n c scorer_two_points_quiet [of "(13, 77.5)" "(13, 77.5)"]
       scorer_two_points_one_crime [of "(13, 77.5)"]]
  then show ?thesis using n c by simp
qed

text \<open>
  The claim as the specification words it (a strict decrease) fails: in the example above
  the crime count rises at every sampled point and the score is 100 before and after.
\<close>

theorem crime_increase_without_score_decrease:
  "crime_counts \<lparr>crime_data = [], lighting_data = [], population_data = []\<rparr>
     (sampled_route [(13, 77.5), (13, 77.5)]) = [0, 0] \<and>
   crime_counts \<lparr>crime_data = [(13, 77.5)], lighting_data = [], population_data = []\<rparr>
     (sampled_route [(13, 77.5), (13, 77.5)]) = [1, 1] \<and>
   map_option safety_score
     (calculate_route_safety_comprehensive
        \<lparr>crime_data = [], lighting_data = [], population_data = []\<rparr>
        [(13, 77.5), (13, 77.5)]
        \<lparr>prefer_main_roads = False, prefer_well_lit = False, prefer_populated = False,
         safety_weight = Some 0.7, distance_weight = Some 0.3\<rparr>) = Some 100 \<and>
   map_option safety_score
     (calculate_route_safety_comprehensive
        \<lparr>crime_data = [(13, 77.5)], lighting_data = [], population_data = []\<rparr>
        [(13, 77.5), (13, 77.5)]
        \<lparr>prefer_main_roads = False, prefer_well_lit = False, prefer_populated = False,
         safety_weight = Some 0.7, distance_weight = Some 0.3\<rparr>) = Some 100"
  by (simp add: scorer_two_points_quiet scorer_two_points_one_crime sampled_route_two
      crime_counts_def calculate_crime_exposure_def nearby_crimes_def)

section \<open>Properties of scoring, guardrail loop and curation\<close>

lemma score_route_route: "route (score_route i env prefs c) = route c"
  by (simp add: score_route_def Let_def split: option.splits)




lemma rank_routes_set: "set (rank_routes rs) = set rs"
  by (simp add: rank_routes_def)

lemma rank_routes_length: "length (rank_routes rs) = length rs"
  by (simp add: rank_routes_def)

lemma rank_routes_distinct_map:
  "distinct (map f (rank_routes rs)) = distinct (map f rs)"
  by (simp add: rank_routes_def distinct_map)

text \<open>The head of the sorted pool has the largest composite score.\<close>

lemma rank_routes_head_best:
  assumes "rank_routes rs = best # others" and "r \<in> set rs"
  shows "composite_score r \<le> composite_score best"
proof -
  have s: "sorted (map (\<lambda>r. - composite_score r) (rank_routes rs))"
    unfolding rank_routes_def by (rule sorted_sort_key)
  have "r \<in> set (rank_routes rs)" using assms(2) by (simp add: rank_routes_set)
  then have "r = best \<or> r \<in> set others" using assms(1) by simp
  then show ?thesis using s assms(1) by auto
qed

lemma run_guardrails_no_exception:
  "\<exists>vs. run_guardrails env acc rs = Inr vs"
proof (induction rs arbitrary: acc)
  case Nil
  then show ?case by simp
next
  case (Cons r rs)
  obtain a b c where v: "guardrail_verdict env r = Inr (a, b, c)"
    using guardrail_verdict_time_only [of r env] by blast
  show ?case using Cons.IH v by (simp add: Let_def)
qed

lemma run_guardrails_distinct:
  assumes "run_guardrails env acc rs = Inr vs"
    and "distinct (map f (map route acc @ map route rs))"
  shows "distinct (map f (map route vs))"
  using assms
proof (induction rs arbitrary: acc)
  case Nil
  then show ?case by simp
next
  case (Cons r rs)
  obtain a b c where v: "guardrail_verdict env r = Inr (a, b, c)"
    using guardrail_verdict_time_only [of r env] by blast
  show ?case
  proof (cases a)
    case False
    then have "run_guardrails env acc rs = Inr vs" using Cons.prems(1) v by simp
    moreover have "distinct (map f (map route acc @ map route rs))"
      using Cons.prems(2) by simp
    ultimately show ?thesis by (rule Cons.IH)
  next
    case True
    define w where "w = \<lparr>route = route r, distance_km = distance_km r,
        duration_min = duration_min r, waypoint = waypoint r, nav_steps = nav_steps r,
        metrics = (metrics r)\<lparr>safety_score := b\<rparr>, source = source r,
        composite_score = composite_score r, ml_score = ml_score r, rule_score = rule_score r,
        guardrail_warnings = c\<rparr>"
    have rw: "route w = route r" by (simp add: w_def)
    have d: "distinct (map f (map route (acc @ [w]) @ map route rs))"
      using Cons.prems(2) rw by simp
    show ?thesis
    proof (cases "length (acc @ [w]) \<ge> 20")
      case True
      then have "vs = acc @ [w]" using Cons.prems(1) v \<open>a\<close> by (simp add: Let_def w_def)
      then show ?thesis using d by simp
    next
      case False
      then have "run_guardrails env (acc @ [w]) rs = Inr vs"
        using Cons.prems(1) v \<open>a\<close> by (simp add: Let_def w_def)
      then show ?thesis using d by (rule Cons.IH)
    qed
  qed
qed


text \<open>When every verdict is a rejection the loop validates nothing, and conversely.\<close>

lemma run_guardrails_all_rejected:
  assumes "hour (now env) < 3"
  shows "run_guardrails env acc rs = Inr acc"
proof (induction rs)
  case Nil
  then show ?case by simp
next
  case (Cons r rs)
  obtain a b c where v: "guardrail_verdict env r = Inr (a, b, c)"
    using guardrail_verdict_time_only [of r env] by blast
  have "\<not> a" using guardrail_verdict_range [OF v] assms by simp
  then show ?case using Cons.IH v by simp
qed

lemma run_guardrails_grows:
  assumes "run_guardrails env acc rs = Inr vs"
  shows "length acc \<le> length vs"
  using assms
proof (induction rs arbitrary: acc)
  case Nil
  then show ?case by simp
next
  case (Cons r rs)
  obtain a b c where v: "guardrail_verdict env r = Inr (a, b, c)"
    using guardrail_verdict_time_only [of r env] by blast
  show ?case
  proof (cases a)
    case False
    then show ?thesis using Cons v by simp
  next
    case True
    then show ?thesis
      using Cons.prems v Cons.IH
      by (auto simp: Let_def split: if_splits dest!: Cons.IH)
  qed
qed

lemma run_guardrails_some_accepted:
  assumes "\<not> hour (now env) < 3" and "rs \<noteq> []" and "run_guardrails env [] rs = Inr vs"
  shows "vs \<noteq> []"
proof -
  obtain r rs' where rs: "rs = r # rs'" using assms(2) by (cases rs) auto
  obtain a b c where v: "guardrail_verdict env r = Inr (a, b, c)"
    using guardrail_verdict_time_only [of r env] by blast
  have a: a using guardrail_verdict_range [OF v] assms(1) by simp
  have "\<exists>w. run_guardrails env [w] rs' = Inr vs"
    using assms(3) rs v a by (auto simp: Let_def)
  then obtain w where "run_guardrails env [w] rs' = Inr vs" by blast
  then have "length [w] \<le> length vs" by (rule run_guardrails_grows)
  then show ?thesis by auto
qed


lemma map_snd_enumerate: "map (\<lambda>ir. f (snd ir)) (zip [0..<length xs] xs) = map f xs"
proof -
  have "map snd (zip [0..<length xs] xs) = xs" by (simp add: map_snd_zip)
  then have "map f (map snd (zip [0..<length xs] xs)) = map f xs" by simp
  then show ?thesis unfolding map_map o_def .
qed

lemma curate_routes: "map out_route (curate vs) = map route (take 7 vs)"
  using map_snd_enumerate [of route "take 7 vs"]
  by (simp add: curate_def Let_def curate_route_def o_def)


section \<open>Properties of the optimizer\<close>

text \<open>The three ways in which the optimizer answers with routes.\<close>

lemma optimize_valid_success:
  assumes "optimize_valid i env prefs start dest = Success res"
  defines "st \<equiv> generate_candidates env prefs start dest"
  defines "sorted_routes \<equiv> rank_routes (map (score_route i env prefs) (all_routes st))"
  shows "(i = Routes_py \<and> all_routes st = [] \<and>
          (\<exists>fr others. get_route_from_osrm (osrm env) (requests st) start dest None
                           = Some (fr # others) \<and>
             res = \<lparr>routes = [direct_fallback_route env prefs fr], total_analyzed = 1,
                    is_fallback = True\<rparr>)) \<or>
         (i = Routes_py \<and> all_routes st \<noteq> [] \<and> run_guardrails env [] sorted_routes = Inr [] \<and>
          (\<exists>best others. sorted_routes = best # others \<and>
             res = \<lparr>routes = [best_available_route best], total_analyzed = length sorted_routes,
                    is_fallback = True\<rparr>)) \<or>
         (all_routes st \<noteq> [] \<and>
          (\<exists>vs. run_guardrails env [] sorted_routes = Inr vs \<and> vs \<noteq> [] \<and>
             res = \<lparr>routes = curate vs, total_analyzed = length sorted_routes,
                    is_fallback = False\<rparr>))"
  using assms(1) unfolding optimize_valid_def st_def sorted_routes_def Let_def
  by (auto split: if_splits impl.splits option.splits list.splits sum.splits)

lemma parse_request_rejects: "parse_request req \<noteq> Inl (Success res)"
  by (auto simp: parse_request_def split: option.splits prod.splits if_splits)

lemma optimize_route_success:
  assumes "optimize_route i env req = Success res"
  shows "\<exists>prefs start dest. parse_request req = Inr (prefs, start, dest) \<and>
           optimize_valid i env prefs start dest = Success res"
proof (cases "parse_request req")
  case (Inl a)
  then show ?thesis using assms parse_request_rejects [of req res]
    by (simp add: optimize_route_def)
next
  case (Inr b)
  obtain prefs start dest where "b = (prefs, start, dest)" by (cases b) auto
  then show ?thesis using assms Inr by (simp add: optimize_route_def)
qed

lemma sorted_pool_fingerprints:
  "distinct (map (\<lambda>r. fingerprint env (route r))
     (rank_routes (map (score_route i env prefs)
        (all_routes (generate_candidates env prefs start dest)))))"
proof -
  have "distinct (map (\<lambda>c. fingerprint env (route c))
          (all_routes (generate_candidates env prefs start dest)))"
    using generate_candidates_invariant [of env prefs start dest]
    by (simp add: pool_invariant_def)
  then show ?thesis
    by (simp add: rank_routes_distinct_map o_def score_route_route)
qed

lemma optimize_valid_fingerprints:
  assumes "optimize_valid i env prefs start dest = Success res"
  shows "distinct (map (\<lambda>r. fingerprint env (out_route r)) (routes res))"
proof -
  define sorted_routes where "sorted_routes =
    rank_routes (map (score_route i env prefs) (all_routes (generate_candidates env prefs start dest)))"
  consider
    (one) x where "routes res = [x]"
    | (many) vs where "run_guardrails env [] sorted_routes = Inr vs" "routes res = curate vs"
    using optimize_valid_success [OF assms] unfolding sorted_routes_def by auto
  then show ?thesis
  proof cases
    case one
    then show ?thesis by simp
  next
    case many
    have "distinct (map (fingerprint env) (map route [] @ map route sorted_routes))"
      using sorted_pool_fingerprints [of env i prefs start dest]
      by (simp add: sorted_routes_def o_def)
    then have "distinct (map (fingerprint env) (map route vs))"
      using many(1) by (intro run_guardrails_distinct)
    then have "distinct (take 7 (map (fingerprint env) (map route vs)))"
      by (rule distinct_take)
    then have "distinct (map (fingerprint env) (map out_route (curate vs)))"
      by (simp add: curate_routes take_map)
    then show ?thesis using many(2) by (simp add: o_def)
  qed
qed

text \<open>
  C3.  Within one optimization request no two routes of the returned list share a
  RouteFingerprint, and no two routes of the candidate pool do: both phases of the
  generator append a route only when its fingerprint is not in the dedup set, and every
  fingerprint of the pool is in that set.
\<close>

theorem returned_fingerprints_distinct:
  "distinct (map (\<lambda>r. fingerprint env (out_route r)) (returned_routes (optimize_route i env req))) \<and>
   pool_invariant env prefs start dest
     (all_routes (generate_candidates env prefs start dest))
     (route_hashes (generate_candidates env prefs start dest))"
proof
  show "distinct (map (\<lambda>r. fingerprint env (out_route r))
          (returned_routes (optimize_route i env req)))"
  proof (cases "optimize_route i env req")
    case (Success res)
    then obtain prefs start dest where "optimize_valid i env prefs start dest = Success res"
      using optimize_route_success by blast
    then show ?thesis
      using optimize_valid_fingerprints Success by (simp add: returned_routes_def)
  qed (simp_all add: returned_routes_def)
  show "pool_invariant env prefs start dest
     (all_routes (generate_candidates env prefs start dest))
     (route_hashes (generate_candidates env prefs start dest))"
    by (rule generate_candidates_invariant)
qed





section \<open>The fallback policy\<close>

lemma rejected_iff: "rejected env r = (hour (now env) < 3)"
  using guardrail_verdict_time_only [of r env] by (simp add: rejected_def)

lemma optimize_valid_empty_pool:
  assumes "all_routes (generate_candidates env prefs start dest) = []"
  shows "optimize_valid i env prefs start dest =
           (case i of
              App_py \<Rightarrow> Not_found ''No valid routes found''
            | Routes_py \<Rightarrow>
                (case get_route_from_osrm (osrm env)
                        (requests (generate_candidates env prefs start dest)) start dest None of
                   None \<Rightarrow> Not_found ''No valid routes found''
                 | Some [] \<Rightarrow> Not_found ''No valid routes found''
                 | Some (fallback_route # others) \<Rightarrow>
                     Success \<lparr>routes = [direct_fallback_route env prefs fallback_route],
                              total_analyzed = 1, is_fallback = True\<rparr>))"
  using assms by (simp add: optimize_valid_def Let_def)

lemma optimize_valid_all_rejected:
  assumes "all_routes (generate_candidates env prefs start dest) \<noteq> []"
    and "hour (now env) < 3"
    and "rank_routes (map (score_route i env prefs)
           (all_routes (generate_candidates env prefs start dest))) = best # others"
  shows "optimize_valid i env prefs start dest =
           (case i of
              App_py \<Rightarrow> Not_found ''No routes passed safety validation''
            | Routes_py \<Rightarrow>
                Success \<lparr>routes = [best_available_route best],
                         total_analyzed =
                           length (all_routes (generate_candidates env prefs start dest)),
                         is_fallback = True\<rparr>)"
proof -
  have "run_guardrails env [] (best # others) = Inr []"
    using assms(2) by (rule run_guardrails_all_rejected)
  moreover have "length (best # others)
                   = length (all_routes (generate_candidates env prefs start dest))"
    using assms(3) [symmetric] by (simp add: rank_routes_length)
  ultimately show ?thesis
    using assms(1) assms(3) by (simp add: optimize_valid_def Let_def split: impl.splits)
qed

lemma optimize_valid_some_accepted:
  assumes "all_routes (generate_candidates env prefs start dest) \<noteq> []"
    and "\<not> hour (now env) < 3"
  shows "\<exists>vs. vs \<noteq> [] \<and>
           run_guardrails env []
             (rank_routes (map (score_route i env prefs)
                (all_routes (generate_candidates env prefs start dest)))) = Inr vs \<and>
           optimize_valid i env prefs start dest =
             Success \<lparr>routes = curate vs,
                      total_analyzed =
                        length (all_routes (generate_candidates env prefs start dest)),
                      is_fallback = False\<rparr>"
proof -
  define sorted_routes where "sorted_routes =
    rank_routes (map (score_route i env prefs) (all_routes (generate_candidates env prefs start dest)))"
  have ne: "sorted_routes \<noteq> []"
    using assms(1) rank_routes_length [of "map (score_route i env prefs)
      (all_routes (generate_candidates env prefs start dest))"]
    unfolding sorted_routes_def by (metis length_0_conv length_map)
  obtain vs where vs: "run_guardrails env [] sorted_routes = Inr vs"
    using run_guardrails_no_exception by blast
  have "vs \<noteq> []" using assms(2) ne vs by (rule run_guardrails_some_accepted)
  moreover have "length sorted_routes
                   = length (all_routes (generate_candidates env prefs start dest))"
    by (simp add: sorted_routes_def rank_routes_length)
  ultimately show ?thesis
    using assms(1) vs unfolding sorted_routes_def
    by (simp add: optimize_valid_def Let_def)
qed

text \<open>
  C1, as the sources have it.  For a request that parses, with \<open>pool\<close> the candidates
  that passed validation:

  In \<^verbatim>\<open>app/routes.py\<close>: when the pool is empty and the provider answers the repeated direct
  request with at least one geometry, the answer is that first geometry alone,
  unvalidated, in category \<open>direct\<close>, with the caution warning and \<open>is_fallback\<close>; when
  the pool is not empty and the guardrails reject every route of it, the answer is the
  route with the largest composite score alone, with its score from before the
  guardrails, the caution warning and \<open>is_fallback\<close>; and a 404 answer means that the
  pool is empty.

  In \<^verbatim>\<open>app.py\<close> there is no fallback: both cases end in a 404 answer.
\<close>

theorem fallback_policy:
  fixes env :: environment
  assumes "parse_request req = Inr (prefs, start, dest)"
  defines "st \<equiv> generate_candidates env prefs start dest"
  shows "(all_routes st = [] \<and>
          get_route_from_osrm (osrm env) (requests st) start dest None = Some (fr # others) \<longrightarrow>
            (\<exists>x. optimize_route Routes_py env req
                    = Success \<lparr>routes = [x], total_analyzed = 1, is_fallback = True\<rparr> \<and>
                  out_route x = route fr \<and> category x = Direct \<and>
                  route_warning x = Some Caution_failed_validations)) \<and>
         (all_routes st \<noteq> [] \<and>
          list_all (rejected env) (map (score_route Routes_py env prefs) (all_routes st)) \<longrightarrow>
            (\<exists>best x. best \<in> set (map (score_route Routes_py env prefs) (all_routes st)) \<and>
                  list_all (\<lambda>r. composite_score r \<le> composite_score best)
                    (map (score_route Routes_py env prefs) (all_routes st)) \<and>
                  optimize_route Routes_py env req
                    = Success \<lparr>routes = [x], total_analyzed = length (all_routes st),
                               is_fallback = True\<rparr> \<and>
                  out_route x = route best \<and>
                  out_safety_score x = safety_score (metrics best) \<and>
                  category x = Direct \<and>
                  route_warning x = Some Caution_safety_concerns)) \<and>
         (optimize_route Routes_py env req = Not_found msg \<longrightarrow> all_routes st = []) \<and>
         (all_routes st = [] \<longrightarrow>
            optimize_route App_py env req = Not_found ''No valid routes found'') \<and>
         (all_routes st \<noteq> [] \<and>
          list_all (rejected env) (map (score_route App_py env prefs) (all_routes st)) \<longrightarrow>
            optimize_route App_py env req = Not_found ''No routes passed safety validation'')"
proof -
  have o: "optimize_route i env req = optimize_valid i env prefs start dest" for i
    using assms(1) by (simp add: optimize_route_def)
  have late: "hour (now env) < 3"
    if ne: "all_routes st \<noteq> []"
      and rj: "list_all (rejected env) (map (score_route i env prefs) (all_routes st))"
    for i
  proof -
    obtain c cs where "all_routes st = c # cs" using ne by (auto simp: neq_Nil_conv)
    then have "rejected env (score_route i env prefs c)" using rj by simp
    then show ?thesis by (simp add: rejected_iff)
  qed
  have sorted_ne: "\<exists>best rest. rank_routes (map (score_route i env prefs) (all_routes st)) = best # rest"
    if "all_routes st \<noteq> []" for i
  proof -
    have "length (rank_routes (map (score_route i env prefs) (all_routes st))) \<noteq> 0"
      using that by (simp add: rank_routes_length)
    then show ?thesis
      by (cases "rank_routes (map (score_route i env prefs) (all_routes st))") auto
  qed
  have p1: "\<exists>x. optimize_route Routes_py env req
                    = Success \<lparr>routes = [x], total_analyzed = 1, is_fallback = True\<rparr> \<and>
                  out_route x = route fr \<and> category x = Direct \<and>
                  route_warning x = Some Caution_failed_validations"
    if "all_routes st = []"
      "get_route_from_osrm (osrm env) (requests st) start dest None = Some (fr # others)"
    using that optimize_valid_empty_pool [of env prefs start dest Routes_py]
    unfolding o st_def by (simp add: direct_fallback_route_def)
  have p2: "\<exists>best x. best \<in> set (map (score_route Routes_py env prefs) (all_routes st)) \<and>
                  list_all (\<lambda>r. composite_score r \<le> composite_score best)
                    (map (score_route Routes_py env prefs) (all_routes st)) \<and>
                  optimize_route Routes_py env req
                    = Success \<lparr>routes = [x], total_analyzed = length (all_routes st),
                               is_fallback = True\<rparr> \<and>
                  out_route x = route best \<and>
                  out_safety_score x = safety_score (metrics best) \<and>
                  category x = Direct \<and>
                  route_warning x = Some Caution_safety_concerns"
    if ne: "all_routes st \<noteq> []"
      and rj: "list_all (rejected env) (map (score_route Routes_py env prefs) (all_routes st))"
  proof -
    obtain best rest where
      s: "rank_routes (map (score_route Routes_py env prefs) (all_routes st)) = best # rest"
      using sorted_ne [OF ne] by blast
    have "best \<in> set (rank_routes (map (score_route Routes_py env prefs) (all_routes st)))"
      using s by simp
    then have m: "best \<in> set (map (score_route Routes_py env prefs) (all_routes st))"
      by (simp only: rank_routes_set)
    have b: "list_all (\<lambda>r. composite_score r \<le> composite_score best)
               (map (score_route Routes_py env prefs) (all_routes st))"
      unfolding list_all_iff using rank_routes_head_best [OF s] by blast
    have "optimize_route Routes_py env req
            = Success \<lparr>routes = [best_available_route best],
                       total_analyzed = length (all_routes st), is_fallback = True\<rparr>"
      using optimize_valid_all_rejected [OF _ late [OF ne rj], of prefs start dest Routes_py best rest]
        ne s unfolding o st_def by simp
    then show ?thesis
      using m b by (intro exI [of _ best] exI [of _ "best_available_route best"])
        (simp add: best_available_route_def out_safety_score_def)
  qed
  have p3: "all_routes st = []" if "optimize_route Routes_py env req = Not_found msg"
  proof (rule ccontr)
    assume ne: "all_routes st \<noteq> []"
    show False
    proof (cases "hour (now env) < 3")
      case True
      obtain best rest where
        s: "rank_routes (map (score_route Routes_py env prefs) (all_routes st)) = best # rest"
        using sorted_ne [OF ne] by blast
      show False
        using optimize_valid_all_rejected [OF _ True, of prefs start dest Routes_py best rest]
          ne s that unfolding o st_def by simp
    next
      case False
      show False
        using optimize_valid_some_accepted [OF _ False, of prefs start dest Routes_py]
          ne that unfolding o st_def by auto
    qed
  qed
  have p4: "optimize_route App_py env req = Not_found ''No valid routes found''"
    if "all_routes st = []"
    using that optimize_valid_empty_pool [of env prefs start dest App_py]
    unfolding o st_def by simp
  have p5: "optimize_route App_py env req = Not_found ''No routes passed safety validation''"
    if ne: "all_routes st \<noteq> []"
      and rj: "list_all (rejected env) (map (score_route App_py env prefs) (all_routes st))"
  proof -
    obtain best rest where
      s: "rank_routes (map (score_route App_py env prefs) (all_routes st)) = best # rest"
      using sorted_ne [OF ne] by blast
    show ?thesis
      using optimize_valid_all_rejected [OF _ late [OF ne rj], of prefs start dest App_py best rest]
        ne s unfolding o st_def by simp
  qed
  show ?thesis using p1 p2 p3 p4 p5 by blast
qed

section \<open>The example requests, evaluated\<close>

lemma dist_km_same: "dist_km p p = 0"
  by (simp add: dist_km_def haversine_km_same)

lemma dist_km_north:
  assumes "0 \<le> d" and "d \<le> 180"
  shows "dist_km (lat, lon) (lat + d, lon) = 6371 * (d * pi / 180)"
  using haversine_km_meridian [of "lat + d" lat lon] assms
  by (simp add: dist_km_def radians_def)

lemma dist_km_south:
  assumes "0 \<le> d" and "d \<le> 180"
  shows "dist_km (lat + d, lon) (lat, lon) = 6371 * (d * pi / 180)"
  using dist_km_north [OF assms, of lat lon]
  by (simp add: dist_km_def haversine_km_sym [of "lat + d"])

lemma parse_example_request:
  "parse_request example_request = Inr (example_preferences, (13, 77.5), (13.001, 77.5))"
  by (simp add: parse_request_def example_request_def example_preferences_def parse_weight_def
      py_float_def validate_coordinates_def)

lemma example_endpoints_valid:
  "validate_coordinates (Num 13) (Num 77.5)" "validate_coordinates (Num 13.001) (Num 77.5)"
  by (simp_all add: validate_coordinates_def py_float_def)

lemma get_straight_route:
  "get_route_from_osrm (direct_only straight_route) k (13, 77.5) (13.001, 77.5) None
   = Some [\<lparr>route = [(13, 77.5), (13.001, 77.5)], distance_km = 0.111, duration_min = 1,
            waypoint = None, nav_steps = []\<rparr>]"
  using example_endpoints_valid
  by (simp add: get_route_from_osrm_def direct_only_def straight_route_def
      convert_osrm_route_def Let_def dist_km_same)

lemma get_jumping_route:
  "get_route_from_osrm (direct_only jumping_route) k (13, 77.5) (13.001, 77.5) None
   = Some [\<lparr>route = [(13, 77.5), (13.01, 77.5), (13.001, 77.5)], distance_km = 2.112,
            duration_min = 5, waypoint = None, nav_steps = []\<rparr>]"
  using example_endpoints_valid
  by (simp add: get_route_from_osrm_def direct_only_def jumping_route_def
      convert_osrm_route_def Let_def dist_km_same)

lemma get_waypoint_route:
  "get_route_from_osrm (direct_only r) k start dest (Some w) = None"
  by (simp add: get_route_from_osrm_def direct_only_def)

text \<open>The 111 m of the straight route are below the gap limit; the 1.1 km jump is above.\<close>

lemma straight_route_connected:
  "validate_route_connectivity [(13, 77.5), (13.001, 77.5)] 0.5"
proof -
  have "dist_km (13, 77.5) (13 + 0.001, 77.5) = 6371 * (0.001 * pi / 180)"
    by (rule dist_km_north) simp_all
  moreover have "6371 * (0.001 * pi / 180) \<le> 0.5" using pi_less_4 by simp
  ultimately have "dist_km (13, 77.5) (13.001, 77.5) \<le> 0.5" by simp
  then show ?thesis by (simp add: validate_route_connectivity_def not_less [symmetric])
qed

lemma jumping_route_disconnected:
  "\<not> validate_route_connectivity [(13, 77.5), (13.01, 77.5), (13.001, 77.5)] 0.5"
proof -
  have "dist_km (13, 77.5) (13 + 0.01, 77.5) = 6371 * (0.01 * pi / 180)"
    by (rule dist_km_north) simp_all
  moreover have "6371 * (0.01 * pi / 180) > 0.5" using pi_ge_two by simp
  ultimately have "dist_km (13, 77.5) (13.01, 77.5) > 0.5" by simp
  then show ?thesis by (simp add: validate_route_connectivity_def)
qed

text \<open>With a provider that fails on every waypoint request, phase 2 adds nothing.\<close>

lemma waypoint_step_unanswered:
  assumes "osrm env = direct_only r"
  shows "all_routes (waypoint_step env prefs start dest st pod) = all_routes st \<and>
         route_hashes (waypoint_step env prefs start dest st pod) = route_hashes st \<and>
         waypoint_count (waypoint_step env prefs start dest st pod) = waypoint_count st"
  by (simp add: waypoint_step_def Let_def assms get_waypoint_route)

lemma waypoint_fold_unanswered:
  assumes "osrm env = direct_only r"
  shows "all_routes (foldl (waypoint_step env prefs start dest) st grid) = all_routes st"
proof (induction grid arbitrary: st)
  case Nil
  then show ?case by simp
next
  case (Cons pod grid)
  show ?case
    using Cons.IH [of "waypoint_step env prefs start dest st pod"]
      waypoint_step_unanswered [OF assms, of prefs start dest st pod]
    by simp
qed

lemma generate_candidates_unanswered:
  assumes "osrm env = direct_only r"
  shows "all_routes (generate_candidates env prefs start dest)
         = fst (direct_phase env prefs start dest)"
  by (simp add: generate_candidates_def Let_def waypoint_fold_unanswered [OF assms])

lemma example_fingerprint:
  "calculate_route_hash (md5 (example_env r h)) [(13, 77.5), (13.001, 77.5)]
   = Some ''d41d8cd98f00b204e9800998ecf8427e''"
  by (simp add: calculate_route_hash_def example_env_def)

text \<open>The pool of the straight example holds the straight route; the other pool is empty.\<close>

lemma straight_pool:
  "all_routes (generate_candidates (example_env straight_route h) example_preferences
                 (13, 77.5) (13.001, 77.5))
   = [\<lparr>route = [(13, 77.5), (13.001, 77.5)], distance_km = 0.111, duration_min = 1,
       waypoint = None, nav_steps = [],
       metrics = \<lparr>safety_score = 100, crime_density = 0, max_crime_exposure = 0,
                  crime_hotspot_percentage = 0, lighting_score = 5, population_score = 5,
                  traffic_score = 5, main_road_percentage = 0, crime_density_score = 100\<rparr>,
       source = Direct_source 1\<rparr>]"
proof -
  have o: "osrm (example_env straight_route h) = direct_only straight_route"
    by (simp add: example_env_def)
  have t: "tables (example_env straight_route h)
             = \<lparr>crime_data = [], lighting_data = [], population_data = []\<rparr>"
    by (simp add: example_env_def)
  have b: "detect_route_backtracking [(13, 77.5), (13.001, 77.5)] (13, 77.5) (13.001, 77.5)"
    by (simp add: detect_route_backtracking_def)
  have s: "calculate_route_safety_comprehensive (tables (example_env straight_route h))
             [(13, 77.5), (13.001, 77.5)] example_preferences
           = Some \<lparr>safety_score = 100, crime_density = 0, max_crime_exposure = 0,
                  crime_hotspot_percentage = 0, lighting_score = 5, population_score = 5,
                  traffic_score = 5, main_road_percentage = 0, crime_density_score = 100\<rparr>"
    unfolding t example_preferences_def by (rule scorer_two_points_quiet)
  have p: "\<not> prefer_main_roads example_preferences"
    by (simp add: example_preferences_def)
  show ?thesis
    unfolding generate_candidates_unanswered [OF o] direct_phase_def o get_straight_route
    using straight_route_connected b example_fingerprint [of straight_route h] s p
    by (simp add: direct_step_def Let_def make_candidate_def)
qed

lemma jumping_pool:
  "all_routes (generate_candidates (example_env jumping_route h) example_preferences
                 (13, 77.5) (13.001, 77.5)) = []"
proof -
  have o: "osrm (example_env jumping_route h) = direct_only jumping_route"
    by (simp add: example_env_def)
  show ?thesis
    unfolding generate_candidates_unanswered [OF o] direct_phase_def o get_jumping_route
    using jumping_route_disconnected
    by (simp add: direct_step_def Let_def)
qed

lemma straight_answer_afternoon:
  "optimize_route i (example_env straight_route 14) example_request
   = Success
       \<lparr>routes =
          [\<lparr>out_route = [(13, 77.5), (13.001, 77.5)], out_distance_km = 0.111,
            out_duration_min = 1, out_nav_steps = [],
            out_metrics =
              All_keys \<lparr>safety_score = 100, crime_density = 0, max_crime_exposure = 0,
                        crime_hotspot_percentage = 0, lighting_score = 5,
                        population_score = 5, traffic_score = 5, main_road_percentage = 0,
                        crime_density_score = 100\<rparr>,
            out_source = Some (Direct_source 1), out_ml_score = None, out_rule_score = None,
            out_guardrail_warnings = Some [], rank = 1, is_recommended = True,
            category = Best, route_warning = None\<rparr>],
        total_analyzed = 1, is_fallback = False\<rparr>"
proof -
  let ?env = "example_env straight_route 14"
  let ?c = "\<lparr>route = [(13, 77.5), (13.001, 77.5)], distance_km = 0.111, duration_min = 1,
       waypoint = None, nav_steps = [],
       metrics = \<lparr>safety_score = 100, crime_density = 0, max_crime_exposure = 0,
                  crime_hotspot_percentage = 0, lighting_score = 5, population_score = 5,
                  traffic_score = 5, main_road_percentage = 0, crime_density_score = 100\<rparr>,
       source = Direct_source 1\<rparr>"
  have ml: "ml_prediction ?env c = None" for c
    by (simp add: ml_prediction_def example_env_def)
  have t: "check_time_based_safety (hour_of ?env) (now ?env) d = (True, 1, [])" for d
    by (simp add: check_time_based_safety_def Let_def example_env_def)
  have h: "\<not> hour (now ?env) < 3" by (simp add: example_env_def)
  have v: "guardrail_verdict ?env (score_route i ?env example_preferences ?c)
             = Inr (True, 100, [])"
    unfolding guardrail_verdict_time_only [THEN conjunct2] t
    using h by (simp add: score_route_def Let_def ml clip_def)
  have "optimize_valid i ?env example_preferences (13, 77.5) (13.001, 77.5)
        = Success
       \<lparr>routes =
          [\<lparr>out_route = [(13, 77.5), (13.001, 77.5)], out_distance_km = 0.111,
            out_duration_min = 1, out_nav_steps = [],
            out_metrics =
              All_keys \<lparr>safety_score = 100, crime_density = 0, max_crime_exposure = 0,
                        crime_hotspot_percentage = 0, lighting_score = 5,
                        population_score = 5, traffic_score = 5, main_road_percentage = 0,
                        crime_density_score = 100\<rparr>,
            out_source = Some (Direct_source 1), out_ml_score = None, out_rule_score = None,
            out_guardrail_warnings = Some [], rank = 1, is_recommended = True,
            category = Best, route_warning = None\<rparr>],
        total_analyzed = 1, is_fallback = False\<rparr>"
    unfolding optimize_valid_def straight_pool Let_def
    using v
    by (simp add: rank_routes_def curate_def curate_route_def categorize_def
        crime_warning_def Let_def score_route_def ml)
  then show ?thesis
    by (simp add: optimize_route_def parse_example_request)
qed

lemma example_night: "hour (now (example_env r 1)) < 3"
  by (simp add: example_env_def)

lemma straight_pool_nonempty:
  "all_routes (generate_candidates (example_env straight_route h) example_preferences
                 (13, 77.5) (13.001, 77.5)) \<noteq> []"
  unfolding straight_pool by simp

lemma straight_pool_rejected_at_night:
  "list_all (rejected (example_env straight_route 1))
     (map (score_route i (example_env straight_route 1) example_preferences)
        (all_routes (generate_candidates (example_env straight_route 1) example_preferences
                       (13, 77.5) (13.001, 77.5))))"
  using example_night [of straight_route] by (simp add: list_all_iff rejected_iff)

lemma jumping_fallback_request:
  "get_route_from_osrm (osrm (example_env jumping_route h))
     (requests (generate_candidates (example_env jumping_route h) example_preferences
                  (13, 77.5) (13.001, 77.5)))
     (13, 77.5) (13.001, 77.5) None
   = Some [\<lparr>route = [(13, 77.5), (13.01, 77.5), (13.001, 77.5)], distance_km = 2.112,
            duration_min = 5, waypoint = None, nav_steps = []\<rparr>]"
proof -
  have "osrm (example_env jumping_route h) = direct_only jumping_route"
    by (simp add: example_env_def)
  then show ?thesis by (simp only: get_jumping_route)
qed

text \<open>
  The claim as the specification words it fails for \<^verbatim>\<open>optimize_route\<close> of \<^verbatim>\<open>app.py\<close>.  At
  1 AM the pool of the straight example holds one route, the guardrails reject it, and
  the answer is the 404 error, not a fallback route.
\<close>

theorem app_py_has_no_fallback:
  "parse_request example_request = Inr (example_preferences, (13, 77.5), (13.001, 77.5)) \<and>
   all_routes (generate_candidates (example_env straight_route 1) example_preferences
                 (13, 77.5) (13.001, 77.5)) \<noteq> [] \<and>
   list_all (rejected (example_env straight_route 1))
     (map (score_route App_py (example_env straight_route 1) example_preferences)
        (all_routes (generate_candidates (example_env straight_route 1) example_preferences
                       (13, 77.5) (13.001, 77.5)))) \<and>
   optimize_route App_py (example_env straight_route 1) example_request
     = Not_found ''No routes passed safety validation''"
proof -
  let ?env = "example_env straight_route 1"
  obtain best rest where s:
    "rank_routes (map (score_route App_py ?env example_preferences)
       (all_routes (generate_candidates ?env example_preferences (13, 77.5) (13.001, 77.5))))
     = best # rest"
    unfolding straight_pool by (simp add: rank_routes_def)
  have "optimize_valid App_py ?env example_preferences (13, 77.5) (13.001, 77.5)
        = Not_found ''No routes passed safety validation''"
    using optimize_valid_all_rejected [OF straight_pool_nonempty example_night s] by simp
  then show ?thesis
    using parse_example_request straight_pool_nonempty [of 1]
      straight_pool_rejected_at_night [of App_py]
    by (simp add: optimize_route_def)
qed

text \<open>
  The fallback policy on the examples.  The provider offers only the route with the 1.1 km
  jump: the pool is empty, \<^verbatim>\<open>app/routes.py\<close> returns that route unvalidated and \<^verbatim>\<open>app.py\<close>
  answers 404.  The provider offers the straight route at 1 AM: the pool holds it, the
  guardrails reject it, \<^verbatim>\<open>app/routes.py\<close> returns it with its score of 100 and \<^verbatim>\<open>app.py\<close>
  answers 404.
\<close>

theorem fallback_policy_witness:
  "(\<exists>x. optimize_route Routes_py (example_env jumping_route 14) example_request
          = Success \<lparr>routes = [x], total_analyzed = 1, is_fallback = True\<rparr> \<and>
        out_route x = [(13, 77.5), (13.01, 77.5), (13.001, 77.5)] \<and> category x = Direct \<and>
        route_warning x = Some Caution_failed_validations) \<and>
   optimize_route App_py (example_env jumping_route 14) example_request
     = Not_found ''No valid routes found'' \<and>
   (\<exists>x. optimize_route Routes_py (example_env straight_route 1) example_request
          = Success \<lparr>routes = [x], total_analyzed = 1, is_fallback = True\<rparr> \<and>
        out_route x = [(13, 77.5), (13.001, 77.5)] \<and> out_safety_score x = 100 \<and>
        category x = Direct \<and> route_warning x = Some Caution_safety_concerns) \<and>
   optimize_route App_py (example_env straight_route 1) example_request
     = Not_found ''No routes passed safety validation''"
proof -
  let ?j = "example_env jumping_route 14"
  let ?s = "example_env straight_route 1"
  let ?fr = "\<lparr>route = [(13, 77.5), (13.01, 77.5), (13.001, 77.5)], distance_km = 2.112,
            duration_min = 5, waypoint = None, nav_steps = []\<rparr>"
  note j = fallback_policy [OF parse_example_request, of ?j ?fr "[]"]
  note s = fallback_policy [OF parse_example_request, of ?s]
  have j1: "\<exists>x. optimize_route Routes_py ?j example_request
          = Success \<lparr>routes = [x], total_analyzed = 1, is_fallback = True\<rparr> \<and>
        out_route x = [(13, 77.5), (13.01, 77.5), (13.001, 77.5)] \<and> category x = Direct \<and>
        route_warning x = Some Caution_failed_validations"
    using j [THEN conjunct1] jumping_pool [of 14] jumping_fallback_request [of 14] by simp
  have j2: "optimize_route App_py ?j example_request = Not_found ''No valid routes found''"
    using j jumping_pool [of 14] by blast
  have s2: "optimize_route App_py ?s example_request
              = Not_found ''No routes passed safety validation''"
    using s straight_pool_nonempty [of 1] straight_pool_rejected_at_night [of App_py] by blast
  have "\<exists>best x. best \<in> set (map (score_route Routes_py ?s example_preferences)
            (all_routes (generate_candidates ?s example_preferences (13, 77.5) (13.001, 77.5)))) \<and>
          list_all (\<lambda>r. composite_score r \<le> composite_score best)
            (map (score_route Routes_py ?s example_preferences)
              (all_routes (generate_candidates ?s example_preferences (13, 77.5) (13.001, 77.5)))) \<and>
          optimize_route Routes_py ?s example_request
            = Success \<lparr>routes = [x],
                 total_analyzed = length (all_routes
                   (generate_candidates ?s example_preferences (13, 77.5) (13.001, 77.5))),
                 is_fallback = True\<rparr> \<and>
          out_route x = route best \<and> out_safety_score x = safety_score (metrics best) \<and>
          category x = Direct \<and> route_warning x = Some Caution_safety_concerns"
    using s straight_pool_nonempty [of 1] straight_pool_rejected_at_night [of Routes_py]
    by blast
  then obtain best x where b:
    "best \<in> set (map (score_route Routes_py ?s example_preferences)
            (all_routes (generate_candidates ?s example_preferences (13, 77.5) (13.001, 77.5))))"
    "optimize_route Routes_py ?s example_request
            = Success \<lparr>routes = [x],
                 total_analyzed = length (all_routes
                   (generate_candidates ?s example_preferences (13, 77.5) (13.001, 77.5))),
                 is_fallback = True\<rparr>"
    "out_route x = route best" "out_safety_score x = safety_score (metrics best)"
    "category x = Direct" "route_warning x = Some Caution_safety_concerns"
    by blast
  have ml: "ml_prediction ?s c = None" for c
    by (simp add: ml_prediction_def example_env_def)
  have "route best = [(13, 77.5), (13.001, 77.5)] \<and> safety_score (metrics best) = 100"
    using b(1) ml unfolding straight_pool by (simp add: score_route_def Let_def)
  then have s1: "\<exists>x. optimize_route Routes_py ?s example_request
          = Success \<lparr>routes = [x], total_analyzed = 1, is_fallback = True\<rparr> \<and>
        out_route x = [(13, 77.5), (13.001, 77.5)] \<and> out_safety_score x = 100 \<and>
        category x = Direct \<and> route_warning x = Some Caution_safety_concerns"
    using b(2-6) unfolding straight_pool by (intro exI [of _ x]) simp
  show ?thesis using j1 j2 s1 s2 by blast
qed


theorem returned_fingerprints_distinct_witness:
  "map (\<lambda>r. fingerprint (example_env straight_route 14) (out_route r))
     (returned_routes (optimize_route Routes_py (example_env straight_route 14) example_request))
     = [Some ''d41d8cd98f00b204e9800998ecf8427e''] \<and>
   distinct (map (\<lambda>r. fingerprint (example_env straight_route 14) (out_route r))
     (returned_routes (optimize_route Routes_py (example_env straight_route 14) example_request)))"
proof -
  have m: "map (\<lambda>r. fingerprint (example_env straight_route 14) (out_route r))
     (returned_routes (optimize_route Routes_py (example_env straight_route 14) example_request))
     = [Some ''d41d8cd98f00b204e9800998ecf8427e'']"
    using example_fingerprint [of straight_route 14]
    by (simp add: straight_answer_afternoon returned_routes_def fingerprint_def)
  show ?thesis
    using returned_fingerprints_distinct
      [of "example_env straight_route 14" Routes_py example_request] m
    by blast
qed

end
